(* ===== verification/Prelude.thy ===== *)
theory Prelude
  imports Complex_Main
begin

text \<open>
  Shared vocabulary of the development: the clock, JavaScript's string
  operations that the components call (\<open>String.prototype.trim\<close> and the
  decimal rendering of a number by \<open>toString\<close> or a template literal), the
  collections of simplification rules the component theories fill, and the
  generic list lemmas they share.
  Characters are Isabelle's 8-bit \<^typ>\<open>char\<close>: the model covers the Latin-1
  range of JavaScript's UTF-16 code units.
\<close>

named_theorems api_simps "equations of the API client (hook) operations"
named_theorems panel_simps "equations of the panel handlers"

type_synonym time = nat \<comment> \<open>\<open>Date.now()\<close>: milliseconds since the epoch\<close>

text \<open>\<open>TabType\<close> of \<open>types.ts\<close>, the tab names both dashboards switch between.\<close>

datatype tab = ChatTab | TrainTab | MetricsTab

section \<open>\<open>String.prototype.trim\<close>\<close>

text \<open>
  ECMAScript's \<open>trim\<close> removes WhiteSpace and LineTerminator code units from both
  ends. In the Latin-1 range these are TAB, LF, VT, FF, CR, SPACE and NBSP.
\<close>

definition js_ws :: "char \<Rightarrow> bool" where
  "js_ws c \<longleftrightarrow> of_char c \<in> {9, 10, 11, 12, 13, 32, 160::nat}"

definition js_trim :: "string \<Rightarrow> string" where
  "js_trim s = rev (dropWhile js_ws (rev (dropWhile js_ws s)))"

text \<open>\<open>!s.trim()\<close>: the empty string is the only falsy string.\<close>

definition blank :: "string \<Rightarrow> bool" where
  "blank s \<longleftrightarrow> js_trim s = []"

lemma dropWhile_eq_Nil_iff_all: "dropWhile P xs = [] \<longleftrightarrow> (\<forall>x\<in>set xs. P x)"
  by (induction xs) auto

lemma blank_iff_all_ws: "blank s \<longleftrightarrow> (\<forall>c\<in>set s. js_ws c)"
proof -
  have "js_trim s = [] \<longleftrightarrow> dropWhile js_ws s = []"
  proof
    assume "js_trim s = []"
    then have "dropWhile js_ws (rev (dropWhile js_ws s)) = []"
      by (simp add: js_trim_def)
    then have "\<forall>x\<in>set (dropWhile js_ws s). js_ws x"
      by (simp add: dropWhile_eq_Nil_iff_all)
    then show "dropWhile js_ws s = []"
      by (metis hd_dropWhile list.set_sel(1))
  qed (auto simp: js_trim_def dropWhile_eq_Nil_iff_all dest: set_dropWhileD)
  then show ?thesis by (simp add: blank_def dropWhile_eq_Nil_iff_all)
qed

text \<open>What \<open>trim\<close> returns is blank only when it is empty.\<close>

lemma js_trim_not_blank: "js_trim s \<noteq> [] \<Longrightarrow> \<not> blank (js_trim s)"
proof -
  assume ne: "js_trim s \<noteq> []"
  let ?e = "dropWhile js_ws (rev (dropWhile js_ws s))"
  have e: "?e \<noteq> []" using ne by (simp add: js_trim_def)
  then have "\<not> js_ws (hd ?e)" by (rule hd_dropWhile)
  moreover have "hd ?e \<in> set (js_trim s)"
    using e by (simp add: js_trim_def)
  ultimately show ?thesis by (auto simp: blank_iff_all_ws)
qed

lemma not_blank_js_trim [simp]: "\<not> blank s \<Longrightarrow> \<not> blank (js_trim s)"
  using js_trim_not_blank [of s] by (simp add: blank_def)

section \<open>Decimal rendering of a number\<close>

text \<open>
  \<open>n.toString()\<close> and \<open>`${n}`\<close> of a non-negative integer: its decimal digits,
  most significant first, with no leading zero.
\<close>

definition digit_char :: "nat \<Rightarrow> char" where
  "digit_char d = char_of (48 + d)"

fun show_nat :: "nat \<Rightarrow> string" where
  "show_nat n = (if n < 10 then [digit_char n] else show_nat (n div 10) @ [digit_char (n mod 10)])"

declare show_nat.simps [simp del]

text \<open>Reading a decimal string back, the inverse used to show that rendering loses nothing.\<close>

definition is_dec_digit :: "char \<Rightarrow> bool" where
  "is_dec_digit c \<longleftrightarrow> (48::nat) \<le> of_char c \<and> of_char c < (58::nat)"

definition dec_value :: "string \<Rightarrow> nat" where
  "dec_value s = foldl (\<lambda>a c. 10 * a + (of_char c - 48)) 0 s"

definition parse_nat :: "string \<Rightarrow> nat option" where
  "parse_nat s = (if s \<noteq> [] \<and> (\<forall>c\<in>set s. is_dec_digit c) then Some (dec_value s) else None)"

lemma of_char_digit_char [simp]: "d < 10 \<Longrightarrow> of_char (digit_char d) = 48 + d"
  by (simp add: digit_char_def)

lemma show_nat_ne [simp]: "show_nat n \<noteq> []"
  by (subst show_nat.simps) simp

lemma show_nat_digits: "\<forall>c\<in>set (show_nat n). is_dec_digit c"
proof (induction n rule: show_nat.induct)
  case (1 n)
  then show ?case
    by (subst show_nat.simps) (auto simp: is_dec_digit_def)
qed

lemma dec_value_show_nat: "dec_value (show_nat n) = n"
proof (induction n rule: show_nat.induct)
  case (1 n)
  show ?case
  proof (cases "n < 10")
    case True
    then show ?thesis by (subst show_nat.simps) (simp add: dec_value_def)
  next
    case False
    then have "dec_value (show_nat (n div 10)) = n div 10" using "1.IH" by simp
    with False show ?thesis
      by (subst show_nat.simps) (simp add: dec_value_def)
  qed
qed

lemma parse_show_nat: "parse_nat (show_nat n) = Some n"
  using show_nat_digits [of n] by (simp add: parse_nat_def dec_value_show_nat)

lemma show_nat_inj [simp]: "show_nat m = show_nat n \<longleftrightarrow> m = n"
  by (metis option.inject parse_show_nat)

end
