(* ===== verification/ApiClient.thy ===== *)
theory ApiClient
  imports Prelude "HOL-Library.AList"
begin

text \<open>
  The API client: the \<open>useClaudeApi\<close> hook of
  \<open>src/frontend/src/hooks/useClaudeApi.ts\<close> (used by the typed panels) and of
  \<open>src/frontend/src/hooks/useClaudeApi.js\<close> (the variant that forces the JSON
  content type), as one model with a \<open>hook_variant\<close> parameter where the two
  differ. The hook's React state (\<open>isLoading\<close>, \<open>error\<close>) is a record; an
  asynchronous \<open>callApi\<close> is split at its \<open>await\<close> into the synchronous start
  and the settlement with the outcome of \<open>fetch\<close>, so that concurrent calls can be
  interleaved by the components. The network is an input: the outcome of
  \<open>fetch\<close> is either a rejection (an error object) or a response.
\<close>

section \<open>JSON values, errors, requests and responses\<close>

datatype json =
    JNull
  | JBool bool
  | JNum rat
  | JStr string
  | JArr "json list"
  | JObj "(string \<times> json) list"

text \<open>A JavaScript value read from parsed JSON: \<open>None\<close> is \<open>undefined\<close>.\<close>

type_synonym jsval = "json option"

text \<open>An \<open>Error\<close> object: its name, its \<open>message\<close> and the optional \<open>status\<close>
  property that \<open>ApiError\<close> of the TS hook declares.\<close>

record exn =
  exn_name :: string
  exn_message :: string
  exn_status :: "nat option"

definition js_error :: "string \<Rightarrow> exn" where
  "js_error m = \<lparr>exn_name = ''Error'', exn_message = m, exn_status = None\<rparr>"

definition syntax_error :: "string \<Rightarrow> exn" where
  "syntax_error m = \<lparr>exn_name = ''SyntaxError'', exn_message = m, exn_status = None\<rparr>"

definition type_error :: "string \<Rightarrow> exn" where
  "type_error m = \<lparr>exn_name = ''TypeError'', exn_message = m, exn_status = None\<rparr>"

text \<open>
  A property read \<open>v.k\<close> on a parsed JSON value: on \<open>null\<close> it throws a
  \<open>TypeError\<close>; on an object it yields the member, the last one when the text
  repeated the key (as \<open>JSON.parse\<close> keeps it); on other values it is
  \<open>undefined\<close> for the member names this program reads.
\<close>

fun js_prop :: "json \<Rightarrow> string \<Rightarrow> exn + jsval" where
  "js_prop JNull k = Inl (type_error (''Cannot read properties of null (reading '' @ [CHR 0x27] @ k @ [CHR 0x27] @ '')''))"
| "js_prop (JObj fs) k = Inr (map_of (rev fs) k)"
| "js_prop _ k = Inr None"

text \<open>
  A response as \<open>fetch\<close> resolves it: status code, status text and the body, which
  \<open>response.json()\<close> either parses (\<open>Inr\<close>) or rejects with a \<open>SyntaxError\<close>
  whose message is given (\<open>Inl\<close>).
\<close>

record http_response =
  status :: nat
  statusText :: string
  body :: "string + json"

definition resp_ok :: "http_response \<Rightarrow> bool" where
  "resp_ok r \<longleftrightarrow> 200 \<le> status r \<and> status r \<le> 299"

type_synonym fetch_outcome = "exn + http_response"

text \<open>The \<open>RequestInit\<close> a caller passes: method, headers in insertion order, body
  (the value given to \<open>JSON.stringify\<close>).\<close>

record request =
  req_url :: string
  req_method :: "string option"
  req_headers :: "(string \<times> string) list"
  req_body :: "json option"

section \<open>The hook\<close>

datatype hook_variant = HookTS | HookJS

record api_state =
  isLoading :: bool
  error :: "string option"

definition api_init :: api_state where
  "api_init = \<lparr>isLoading = False, error = None\<rparr>"

text \<open>\<open>{error && ...}\<close>: the error is rendered when it is a non-empty string.\<close>

definition shown :: "string option \<Rightarrow> bool" where
  "shown e \<longleftrightarrow> e \<noteq> None \<and> e \<noteq> Some []"

text \<open>The request \<open>fetch\<close> receives: the TS hook passes the options through; the JS
  hook spreads them and overrides (or appends) the \<open>Content-Type\<close> header.\<close>

fun fetch_request :: "hook_variant \<Rightarrow> request \<Rightarrow> request" where
  "fetch_request HookTS rq = rq"
| "fetch_request HookJS rq =
     rq\<lparr>req_headers := AList.update ''Content-Type'' ''application/json'' (req_headers rq)\<rparr>"

text \<open>The synchronous part of \<open>callApi\<close>, before its \<open>await\<close>.\<close>

definition call_start :: "api_state \<Rightarrow> api_state" where
  "call_start s = s\<lparr>isLoading := True, error := None\<rparr>"

text \<open>What the \<open>try\<close> block yields: the parsed body, or the error it throws.\<close>

fun call_result :: "hook_variant \<Rightarrow> fetch_outcome \<Rightarrow> exn + json" where
  "call_result v (Inl e) = Inl e"
| "call_result HookTS (Inr r) =
     (if \<not> resp_ok r then Inl (js_error (''HTTP error! status: '' @ show_nat (status r)))
      else (case body r of Inl m \<Rightarrow> Inl (syntax_error m) | Inr j \<Rightarrow> Inr j))"
| "call_result HookJS (Inr r) =
     (if \<not> resp_ok r then Inl (js_error (''API Error: '' @ statusText r))
      else (case body r of Inl m \<Rightarrow> Inl (syntax_error m) | Inr j \<Rightarrow> Inr j))"

text \<open>The string the \<open>catch\<close> block stores.\<close>

fun error_text :: "hook_variant \<Rightarrow> exn \<Rightarrow> string" where
  "error_text HookTS e =
     (if exn_message e = [] then ''An error occurred'' else exn_message e) @
     (case exn_status e of Some n \<Rightarrow> if n \<noteq> 0 then '' ('' @ show_nat n @ '')'' else [] | None \<Rightarrow> [])"
| "error_text HookJS e = exn_message e"

text \<open>The settlement: \<open>catch\<close> records the error, \<open>finally\<close> clears the flag.\<close>

definition call_settle :: "hook_variant \<Rightarrow> exn + json \<Rightarrow> api_state \<Rightarrow> api_state" where
  "call_settle v r s =
     (case r of Inl e \<Rightarrow> s\<lparr>error := Some (error_text v e)\<rparr> | Inr _ \<Rightarrow> s)\<lparr>isLoading := False\<rparr>"

text \<open>One call run without interleaving: its result (the resolved value or the
  re-thrown error) and the hook state after it.\<close>

definition callApi :: "hook_variant \<Rightarrow> fetch_outcome \<Rightarrow> api_state \<Rightarrow> (exn + json) \<times> api_state" where
  "callApi v out s = (let r = call_result v out in (r, call_settle v r (call_start s)))"

declare call_start_def [api_simps] call_settle_def [api_simps] callApi_def [api_simps]
  api_init_def [api_simps] shown_def [api_simps]

section \<open>Concurrent calls on one hook instance\<close>

text \<open>
  The hook keeps no record of its calls: every call writes the same two state
  fields. A state of the hook together with the number of calls in flight;
  a call may start at any time and any call in flight may settle.
\<close>

inductive hook_reach :: "hook_variant \<Rightarrow> api_state \<Rightarrow> nat \<Rightarrow> bool" for v where
  init: "hook_reach v api_init 0"
| start: "hook_reach v s n \<Longrightarrow> hook_reach v (call_start s) (Suc n)"
| settle: "hook_reach v s (Suc n) \<Longrightarrow> hook_reach v (call_settle v r s) n"

text \<open>The same hook used by a caller that starts a call only when none is in flight.\<close>

inductive hook_serial :: "hook_variant \<Rightarrow> api_state \<Rightarrow> nat \<Rightarrow> bool" for v where
  init: "hook_serial v api_init 0"
| start: "hook_serial v s 0 \<Longrightarrow> hook_serial v (call_start s) 1"
| settle: "hook_serial v s 1 \<Longrightarrow> hook_serial v (call_settle v r s) 0"

section \<open>Abstract contract of the hook\<close>

text \<open>The contract of the spec: idle with the last error, or in flight.\<close>

datatype call_status = Idle "string option" | InFlight

definition abs_api :: "api_state \<Rightarrow> call_status" where
  "abs_api s = (if isLoading s then InFlight else Idle (error s))"

fun abs_step :: "hook_variant \<Rightarrow> call_status \<Rightarrow> (exn + json) option \<Rightarrow> call_status" where
  "abs_step v (Idle e) None = InFlight"
| "abs_step v InFlight (Some (Inr _)) = Idle None"
| "abs_step v InFlight (Some (Inl ex)) = Idle (Some (error_text v ex))"
| "abs_step v st _ = st"

section \<open>Lemmas on single calls\<close>

lemma call_settle_isLoading [simp]: "isLoading (call_settle v r s) = False"
  by (simp add: call_settle_def split: sum.split)

lemma call_settle_Inr [simp]: "call_settle v (Inr j) s = s\<lparr>isLoading := False\<rparr>"
  by (simp add: call_settle_def)

lemma call_settle_Inl [simp]:
  "call_settle v (Inl e) s = s\<lparr>error := Some (error_text v e), isLoading := False\<rparr>"
  by (simp add: call_settle_def)

lemma call_start_fields [simp]:
  "isLoading (call_start s) = True" "error (call_start s) = None"
  by (simp_all add: call_start_def)

lemma error_text_TS_ne: "error_text HookTS e \<noteq> []"
  by simp

lemma call_result_ok [simp]:
  "resp_ok r \<Longrightarrow> body r = Inr j \<Longrightarrow> call_result v (Inr r) = Inr j"
  by (cases v) simp_all

lemma call_result_not_ok_TS [simp]:
  "\<not> resp_ok r \<Longrightarrow> call_result HookTS (Inr r) = Inl (js_error (''HTTP error! status: '' @ show_nat (status r)))"
  by simp

lemma call_result_not_ok_JS [simp]:
  "\<not> resp_ok r \<Longrightarrow> call_result HookJS (Inr r) = Inl (js_error (''API Error: '' @ statusText r))"
  by simp

lemma js_error_fields [simp]:
  "exn_message (js_error m) = m" "exn_status (js_error m) = None"
  by (simp_all add: js_error_def)

lemma call_result_no_status: "call_result v (Inr r) = Inl e \<Longrightarrow> exn_status e = None"
  by (cases v) (auto simp: syntax_error_def split: if_splits sum.splits)

section \<open>Properties of \<open>callApi\<close>\<close>

text \<open>C1: a call answered with a 2xx status and a JSON body resolves to that body,
  clears the error set by an earlier call and releases the loading flag, in both hooks.\<close>

theorem callApi_success:
  assumes "resp_ok r" and "body r = Inr j"
  shows "callApi v (Inr r) s = (Inr j, s\<lparr>isLoading := False, error := None\<rparr>)"
  using assms by (simp add: callApi_def call_start_def)

lemma callApi_success_witness:
  "resp_ok \<lparr>status = 200, statusText = ''OK'', body = Inr (JObj [(''response'', JStr ''Hi there'')])\<rparr> \<and>
   body \<lparr>status = 200, statusText = ''OK'', body = Inr (JObj [(''response'', JStr ''Hi there'')])\<rparr> =
     Inr (JObj [(''response'', JStr ''Hi there'')]) \<and>
   callApi HookTS (Inr \<lparr>status = 200, statusText = ''OK'', body = Inr (JObj [(''response'', JStr ''Hi there'')])\<rparr>)
     \<lparr>isLoading = False, error = Some ''old''\<rparr> =
     (Inr (JObj [(''response'', JStr ''Hi there'')]), \<lparr>isLoading = False, error = None\<rparr>)"
  using callApi_success [of "\<lparr>status = 200, statusText = ''OK'', body = Inr (JObj [(''response'', JStr ''Hi there'')])\<rparr>"
      "JObj [(''response'', JStr ''Hi there'')]" HookTS "\<lparr>isLoading = False, error = Some ''old''\<rparr>"]
  by (simp add: resp_ok_def)

text \<open>C2: in the TS hook a non-2xx response makes the call throw an \<open>Error\<close> whose
  message names the status code, and stores exactly that message (the \<open>status\<close>
  suffix of the catch block never applies, since the thrown \<open>Error\<close> has no
  \<open>status\<close> property); the flag is released.\<close>

theorem callApi_http_error_TS:
  assumes "\<not> resp_ok r"
  shows "callApi HookTS (Inr r) s =
    (Inl (js_error (''HTTP error! status: '' @ show_nat (status r))),
     s\<lparr>isLoading := False, error := Some (''HTTP error! status: '' @ show_nat (status r))\<rparr>)"
  using assms by (simp add: callApi_def call_start_def)

lemma callApi_http_error_TS_witness:
  "\<not> resp_ok \<lparr>status = 500, statusText = ''Internal Server Error'', body = Inl ''Unexpected token''\<rparr> \<and>
   callApi HookTS (Inr \<lparr>status = 500, statusText = ''Internal Server Error'', body = Inl ''Unexpected token''\<rparr>) api_init =
    (Inl (js_error (''HTTP error! status: '' @ show_nat 500)),
     \<lparr>isLoading = False, error = Some (''HTTP error! status: '' @ show_nat 500)\<rparr>)"
  using callApi_http_error_TS [of "\<lparr>status = 500, statusText = ''Internal Server Error'', body = Inl ''Unexpected token''\<rparr>" api_init]
  by (simp add: resp_ok_def api_init_def)

text \<open>C30: the JS hook can record a failed call with an empty message, which the
  \<open>{error && ...}\<close> guard does not render: a rejection whose \<open>message\<close> is empty
  leaves the failure invisible (the TS hook substitutes \<open>An error occurred\<close>).\<close>

theorem callApi_JS_silent_failure:
  "snd (callApi HookJS (Inl (js_error [])) s) = s\<lparr>isLoading := False, error := Some []\<rparr> \<and>
   \<not> shown (error (snd (callApi HookJS (Inl (js_error [])) s)))"
  by (simp add: callApi_def call_start_def shown_def)

text \<open>C28: in the TS hook every failed call leaves an error that is rendered.\<close>

theorem callApi_TS_failure_shown:
  assumes "fst (callApi HookTS out s) = Inl e"
  shows "shown (error (snd (callApi HookTS out s)))"
  using assms by (simp add: callApi_def shown_def Let_def)

lemma callApi_TS_failure_shown_witness:
  "fst (callApi HookTS (Inl (js_error [])) api_init) = Inl (js_error []) \<and>
   shown (error (snd (callApi HookTS (Inl (js_error [])) api_init)))"
  using callApi_TS_failure_shown [of "Inl (js_error [])" api_init "js_error []"]
  by (simp add: callApi_def)

text \<open>C29: the JS hook's message for an HTTP failure is built from the status text
  only; with the empty status text of an HTTP/2 response the stored error does not
  contain the status code.\<close>

theorem callApi_JS_status_lost:
  "snd (callApi HookJS (Inr \<lparr>status = 500, statusText = [], body = Inr JNull\<rparr>) api_init) =
     \<lparr>isLoading = False, error = Some ''API Error: ''\<rparr> \<and>
   \<not> (\<exists>a b. ''API Error: '' = a @ show_nat 500 @ b)"
proof
  show "snd (callApi HookJS (Inr \<lparr>status = 500, statusText = [], body = Inr JNull\<rparr>) api_init) =
     \<lparr>isLoading = False, error = Some ''API Error: ''\<rparr>"
    by (simp add: callApi_def call_start_def api_init_def resp_ok_def)
  have "show_nat 500 = ''500''" by code_simp
  then show "\<not> (\<exists>a b. ''API Error: '' = a @ show_nat 500 @ b)"
    by (auto simp: append_eq_append_conv2 append_eq_Cons_conv Cons_eq_append_conv)
qed

text \<open>Whatever the caller passed, the JS hook sends the JSON content type and
  keeps every other header.\<close>

theorem fetch_request_JS_content_type:
  "map_of (req_headers (fetch_request HookJS rq)) =
     (map_of (req_headers rq))(''Content-Type'' \<mapsto> ''application/json'')"
  by (simp add: update_conv')

section \<open>Properties of concurrent calls\<close>

text \<open>C7: the loading flag is set only while some call is in flight.\<close>

theorem hook_loading_in_flight:
  assumes "hook_reach v s n" and "isLoading s"
  shows "0 < n"
  using assms by (induction rule: hook_reach.induct) (simp_all add: api_init_def)

lemma hook_loading_in_flight_witness:
  "hook_reach HookTS (call_start api_init) 1 \<and> isLoading (call_start api_init) \<and> (0::nat) < 1"
proof -
  have r: "hook_reach HookTS (call_start api_init) (Suc 0)"
    by (intro hook_reach.start hook_reach.init)
  have "isLoading (call_start api_init)" by simp
  with hook_loading_in_flight [OF r this] r show ?thesis by simp
qed

text \<open>C21: the converse fails: with two calls started, the first to settle clears
  the flag while the other is still in flight.\<close>

theorem hook_flag_cleared_in_flight:
  "hook_reach v (call_settle v r (call_start (call_start api_init))) 1 \<and>
   \<not> isLoading (call_settle v r (call_start (call_start api_init)))"
proof
  have "hook_reach v (call_start (call_start api_init)) (Suc (Suc 0))"
    by (intro hook_reach.start hook_reach.init)
  from hook_reach.settle [OF this]
  show "hook_reach v (call_settle v r (call_start (call_start api_init))) 1"
    by simp
qed simp

lemma hook_serial_inv:
  assumes "hook_serial v s n"
  shows "n \<le> 1 \<and> (isLoading s \<longleftrightarrow> n = 1) \<and> (isLoading s \<longrightarrow> error s = None)"
  using assms by (induction rule: hook_serial.induct) (simp_all add: api_init_def)

text \<open>C14: a caller that never overlaps its calls sees the spec's contract: the flag
  is set exactly while the one call is in flight, and no error is recorded then.\<close>

theorem hook_serial_loading_iff:
  assumes "hook_serial v s n"
  shows "n \<le> 1 \<and> (isLoading s \<longleftrightarrow> n = 1) \<and> (isLoading s \<longrightarrow> error s = None)"
  using hook_serial_inv [OF assms] .

lemma hook_serial_loading_iff_witness:
  "hook_serial HookJS (call_start api_init) 1 \<and> (1::nat) \<le> 1 \<and>
   isLoading (call_start api_init) \<and> error (call_start api_init) = None"
proof -
  have r: "hook_serial HookJS (call_start api_init) 1"
    by (intro hook_serial.start hook_serial.init)
  from hook_serial_loading_iff [OF r] r show ?thesis by simp
qed

text \<open>C15: under that discipline the hook refines the abstract contract: starting a
  call moves idle to in-flight, and settling moves in-flight to idle with the
  settled call's error (none on success).\<close>

theorem hook_serial_refines:
  assumes "hook_serial v s n"
  shows "(n = 0 \<longrightarrow> abs_api (call_start s) = abs_step v (abs_api s) None) \<and>
         (n = 1 \<longrightarrow> abs_api (call_settle v r s) = abs_step v (abs_api s) (Some r))"
proof -
  have inv: "isLoading s \<longleftrightarrow> n = 1" "isLoading s \<longrightarrow> error s = None"
    using hook_serial_inv [OF assms] by blast+
  show ?thesis
    using inv by (cases r) (auto simp: abs_api_def)
qed

lemma hook_serial_refines_witness:
  "hook_serial HookTS api_init 0 \<and>
   abs_api (call_start api_init) = abs_step HookTS (abs_api api_init) None"
  using hook_serial_refines [OF hook_serial.init, of HookTS] hook_serial.init
  by simp

end
