(* ===== verification/ChatPanel.thy ===== *)
theory ChatPanel
  imports ApiClient
begin

text \<open>
  The chat panel of \<open>src/frontend/src/components/ChatPanel.tsx\<close> with the
  \<open>Message\<close> type of \<open>src/frontend/src/types.ts\<close>. Its React state (the message
  list, the input field and its own instance of the TS hook) is a record.
  \<open>handleSubmit\<close> is split at the \<open>await\<close> of \<open>callApi\<close>: \<open>chat_submit\<close> is the
  synchronous part (guard, user message, input reset, call start) and
  \<open>chat_resume\<close> the continuation with the outcome of \<open>fetch\<close> (settlement of the
  hook, assistant message or the error passed to \<open>onError\<close>). The rendered form
  disables the input and the button while \<open>isLoading\<close> and the button on a blank
  input: \<open>chat_step\<close> gates user events accordingly.
\<close>

section \<open>State and handler\<close>

datatype role = User | Assistant

record message =
  msg_id :: string
  content :: jsval
  role :: role
  timestamp :: time

record chat_state =
  messages :: "message list"
  input :: string
  chat_api :: api_state

definition chat_init :: "message list \<Rightarrow> chat_state" where
  "chat_init ms = \<lparr>messages = ms, input = [], chat_api = api_init\<rparr>"

definition chat_request :: "string \<Rightarrow> request" where
  "chat_request txt =
     \<lparr>req_url = ''/api/v1/claude/message'', req_method = Some ''POST'',
      req_headers = [(''Content-Type'', ''application/json'')],
      req_body = Some (JObj [(''content'', JStr txt)])\<rparr>"

text \<open>The synchronous part of \<open>handleSubmit\<close>: \<open>None\<close> is the early return on a
  blank input; otherwise the new state and the request handed to \<open>fetch\<close>.
  Both \<open>Date.now()\<close> reads of the user message fall in the same millisecond.\<close>

definition chat_submit :: "time \<Rightarrow> chat_state \<Rightarrow> (chat_state \<times> request) option" where
  "chat_submit now s =
     (if blank (input s) then None
      else Some (s\<lparr>messages := messages s @
                     [\<lparr>msg_id = show_nat now, content = Some (JStr (input s)), role = User, timestamp = now\<rparr>],
                   input := [], chat_api := call_start (chat_api s)\<rparr>,
                 fetch_request HookTS (chat_request (input s))))"

text \<open>The continuation of \<open>handleSubmit\<close> when \<open>fetch\<close> settles at time \<open>now\<close>:
  the new state and the message passed to \<open>onError\<close>, if it is called. Reading
  \<open>response.response\<close> happens after \<open>callApi\<close> returned, so a \<open>TypeError\<close>
  there reaches \<open>onError\<close> but not the hook's error.\<close>

definition chat_resume :: "time \<Rightarrow> fetch_outcome \<Rightarrow> chat_state \<Rightarrow> chat_state \<times> string option" where
  "chat_resume now out s =
     (let r = call_result HookTS out;
          s1 = s\<lparr>chat_api := call_settle HookTS r (chat_api s)\<rparr>
      in case r of
           Inl e \<Rightarrow> (s1, Some (exn_message e))
         | Inr data \<Rightarrow>
             (case js_prop data ''response'' of
                Inl e \<Rightarrow> (s1, Some (exn_message e))
              | Inr c \<Rightarrow>
                  (s1\<lparr>messages := messages s1 @
                       [\<lparr>msg_id = show_nat (now + 1), content = c, role = Assistant, timestamp = now\<rparr>]\<rparr>,
                   None)))"

text \<open>One submission run to its end with no other event in between.\<close>

definition chat_exchange ::
  "time \<Rightarrow> time \<Rightarrow> fetch_outcome \<Rightarrow> chat_state \<Rightarrow> chat_state \<times> string option" where
  "chat_exchange t0 t1 out s =
     (case chat_submit t0 s of None \<Rightarrow> (s, None) | Some (s', _) \<Rightarrow> chat_resume t1 out s')"

text \<open>A session of typed inputs, each submitted and answered in turn.\<close>

fun chat_session :: "(string \<times> time \<times> time \<times> fetch_outcome) list \<Rightarrow> chat_state \<Rightarrow> chat_state" where
  "chat_session [] s = s"
| "chat_session ((txt, t0, t1, out) # evs) s =
     chat_session evs (fst (chat_exchange t0 t1 out (s\<lparr>input := txt\<rparr>)))"

section \<open>The panel as a state machine\<close>

text \<open>A state of the panel with the number of its requests in flight. Typing and
  submitting are possible only while the form is enabled; a request in flight
  may settle at any time.\<close>

inductive chat_step :: "chat_state \<times> nat \<Rightarrow> chat_state \<times> nat \<Rightarrow> bool" where
  edit: "\<not> isLoading (chat_api s) \<Longrightarrow> chat_step (s, n) (s\<lparr>input := txt\<rparr>, n)"
| submit: "\<not> isLoading (chat_api s) \<Longrightarrow> \<not> blank (input s) \<Longrightarrow>
    chat_submit now s = Some (s', rq) \<Longrightarrow> chat_step (s, n) (s', Suc n)"
| resume: "chat_step (s, Suc n) (fst (chat_resume now out s), n)"

inductive chat_reach :: "message list \<Rightarrow> chat_state \<times> nat \<Rightarrow> bool" for ms where
  init: "chat_reach ms (chat_init ms, 0)"
| step: "chat_reach ms c \<Longrightarrow> chat_step c c' \<Longrightarrow> chat_reach ms c'"

inductive_cases chat_step_elim: "chat_step (s, n) c'"

text \<open>Every assistant message directly follows a user message.\<close>

definition replies_follow :: "role list \<Rightarrow> bool" where
  "replies_follow rs \<longleftrightarrow> successively (\<lambda>a b. b = Assistant \<longrightarrow> a = User) (Assistant # rs)"

definition chat_inv :: "message list \<Rightarrow> chat_state \<times> nat \<Rightarrow> bool" where
  "chat_inv ms c \<longleftrightarrow>
     (let s = fst c; n = snd c; rest = drop (length ms) (messages s) in
      n \<le> 1 \<and> (isLoading (chat_api s) \<longleftrightarrow> n = 1) \<and>
      take (length ms) (messages s) = ms \<and>
      replies_follow (map role rest) \<and>
      (n = 1 \<longrightarrow> rest \<noteq> [] \<and> role (last rest) = User))"

text \<open>The reply a settled call hands to the panel: the value of \<open>response.response\<close>,
  if the call resolved and the property read did not throw.\<close>

definition reply_of :: "fetch_outcome \<Rightarrow> jsval option" where
  "reply_of out =
     (case call_result HookTS out of
        Inr d \<Rightarrow> (case js_prop d ''response'' of Inr c \<Rightarrow> Some c | Inl _ \<Rightarrow> None)
      | Inl _ \<Rightarrow> None)"

definition user_msg :: "time \<Rightarrow> string \<Rightarrow> message" where
  "user_msg now txt = \<lparr>msg_id = show_nat now, content = Some (JStr txt), role = User, timestamp = now\<rparr>"

definition assistant_msg :: "time \<Rightarrow> jsval \<Rightarrow> message" where
  "assistant_msg now c = \<lparr>msg_id = show_nat (now + 1), content = c, role = Assistant, timestamp = now\<rparr>"

text \<open>A well-formed message added by the panel, as \<open>Message\<close> of \<open>types.ts\<close> types
  it: its id is a decimal numeral (the rendering of a clock reading), and a user
  message holds a non-blank string. A reply's content is not constrained: it is
  whatever \<open>response.response\<close> held, \<open>undefined\<close> included.\<close>

definition msg_wf :: "message \<Rightarrow> bool" where
  "msg_wf m \<longleftrightarrow>
     parse_nat (msg_id m) \<noteq> None \<and>
     (case role m of
        User \<Rightarrow> (case content m of Some (JStr t) \<Rightarrow> \<not> blank t | _ \<Rightarrow> False)
      | Assistant \<Rightarrow> True)"

section \<open>Lemmas on the handler\<close>

lemma chat_submit_Some [panel_simps]:
  "\<not> blank (input s) \<Longrightarrow> chat_submit now s =
     Some (s\<lparr>messages := messages s @ [user_msg now (input s)], input := [],
             chat_api := call_start (chat_api s)\<rparr>, chat_request (input s))"
  by (simp add: chat_submit_def user_msg_def)

lemma chat_resume_reply [panel_simps]:
  "reply_of out = Some c \<Longrightarrow> chat_resume now out s =
     (s\<lparr>chat_api := call_settle HookTS (call_result HookTS out) (chat_api s),
        messages := messages s @ [assistant_msg now c]\<rparr>, None)"
  by (auto simp: reply_of_def chat_resume_def assistant_msg_def Let_def split: sum.splits)

lemma chat_resume_effect:
  "chat_api (fst (chat_resume now out s)) = call_settle HookTS (call_result HookTS out) (chat_api s) \<and>
   (messages (fst (chat_resume now out s)) = messages s \<or>
    (\<exists>m. messages (fst (chat_resume now out s)) = messages s @ [m] \<and> role m = Assistant))"
  by (auto simp: chat_resume_def Let_def split: sum.splits)

lemma chat_exchange_reply:
  assumes "\<not> blank (input s)" and "reply_of out = Some c"
  shows "chat_exchange t0 t1 out s =
    (s\<lparr>messages := messages s @ [user_msg t0 (input s), assistant_msg t1 c], input := [],
       chat_api := (chat_api s)\<lparr>isLoading := False, error := None\<rparr>\<rparr>, None)"
proof -
  from assms(2) obtain d where "call_result HookTS out = Inr d"
    by (auto simp: reply_of_def split: sum.splits)
  with assms show ?thesis
    by (simp add: chat_exchange_def panel_simps call_start_def)
qed

section \<open>Lemmas on the state machine\<close>

lemma replies_follow_snoc_User: "replies_follow rs \<Longrightarrow> replies_follow (rs @ [User])"
  using successively_append_iff [of "\<lambda>a b. b = Assistant \<longrightarrow> a = User" "Assistant # rs" "[User]"]
  by (simp add: replies_follow_def)

lemma replies_follow_snoc_Assistant:
  "replies_follow rs \<Longrightarrow> rs \<noteq> [] \<Longrightarrow> last rs = User \<Longrightarrow> replies_follow (rs @ [Assistant])"
  using successively_append_iff [of "\<lambda>a b. b = Assistant \<longrightarrow> a = User" "Assistant # rs" "[Assistant]"]
  by (simp add: replies_follow_def)

lemma take_eq_length_le: "take (length ms) xs = ms \<Longrightarrow> length ms \<le> length xs"
proof -
  assume "take (length ms) xs = ms"
  then have "length (take (length ms) xs) = length ms" by simp
  then show ?thesis by simp
qed

lemma chat_step_inv:
  assumes "chat_step c c'" and "chat_inv ms c"
  shows "chat_inv ms c'"
  using assms
proof (induction rule: chat_step.induct)
  case (edit s n str)
  then show ?case by (simp add: chat_inv_def)
next
  case (submit s now s' rq n)
  then have n: "n = 0" and pre: "take (length ms) (messages s) = ms"
    and rf: "replies_follow (map role (drop (length ms) (messages s)))"
    and s': "s' = s\<lparr>messages := messages s @ [user_msg now (input s)], input := [],
             chat_api := call_start (chat_api s)\<rparr>"
    by (auto simp: chat_inv_def chat_submit_Some Let_def)
  from pre have "length ms \<le> length (messages s)" by (rule take_eq_length_le)
  with n pre rf s' show ?case
    by (simp add: chat_inv_def replies_follow_snoc_User user_msg_def)
next
  case (resume s n now out)
  then have n: "n = 0" and pre: "take (length ms) (messages s) = ms"
    and rf: "replies_follow (map role (drop (length ms) (messages s)))"
    and last: "drop (length ms) (messages s) \<noteq> []"
      "role (last (drop (length ms) (messages s))) = User"
    by (auto simp: chat_inv_def Let_def)
  from pre have len: "length ms \<le> length (messages s)" by (rule take_eq_length_le)
  have rf': "replies_follow (map role (drop (length ms) (messages s)) @ [Assistant])"
    using rf last by (intro replies_follow_snoc_Assistant) (simp_all add: last_map)
  from chat_resume_effect [of now out s] n pre rf rf' len show ?case
    by (auto simp: chat_inv_def)
qed

lemma chat_reach_chat_inv: "chat_reach ms c \<Longrightarrow> chat_inv ms c"
proof (induction rule: chat_reach.induct)
  case init
  show ?case by (simp add: chat_inv_def chat_init_def api_init_def replies_follow_def)
next
  case (step c c')
  then show ?case by (blast intro: chat_step_inv)
qed


lemma msg_wf_user [simp]: "msg_wf (user_msg now txt) \<longleftrightarrow> \<not> blank txt"
  by (simp add: msg_wf_def user_msg_def parse_show_nat)

lemma msg_wf_assistant [simp]: "msg_wf (assistant_msg now c)"
  by (simp add: msg_wf_def assistant_msg_def parse_show_nat)


lemma not_blank_a [simp]: "\<not> blank ''a''" "\<not> blank ''c''" "\<not> blank ''Hello''"
  by (simp_all add: blank_iff_all_ws js_ws_def)

lemma chat_reach_submit_a:
  "chat_reach [] (\<lparr>messages = [user_msg 5 ''a''], input = [], chat_api = call_start api_init\<rparr>, 1)"
proof -
  have e: "chat_step (chat_init [], 0) ((chat_init [])\<lparr>input := ''a''\<rparr>, 0)"
    by (rule chat_step.edit) (simp add: chat_init_def api_init_def)
  have "chat_step ((chat_init [])\<lparr>input := ''a''\<rparr>, 0)
      (\<lparr>messages = [user_msg 5 ''a''], input = [], chat_api = call_start api_init\<rparr>, Suc 0)"
    by (rule chat_step.submit [where now = 5 and rq = "chat_request ''a''"])
      (simp_all add: chat_init_def api_init_def chat_submit_Some)
  from chat_reach.step [OF chat_reach.step [OF chat_reach.init e] this] show ?thesis by simp
qed

section \<open>Properties of the chat panel\<close>

text \<open>C3: a submission answered with a 2xx JSON object appends the user message and
  the assistant message carrying the object's \<open>response\<close> member, in that order,
  clears the input, leaves no error and calls no \<open>onError\<close>.\<close>

theorem chat_exchange_success:
  assumes "\<not> blank (input s)" and "resp_ok r" and "body r = Inr d"
    and "js_prop d ''response'' = Inr c"
  shows "chat_exchange t0 t1 (Inr r) s =
    (s\<lparr>messages := messages s @ [user_msg t0 (input s), assistant_msg t1 c], input := [],
       chat_api := (chat_api s)\<lparr>isLoading := False, error := None\<rparr>\<rparr>, None)"
proof -
  from assms(2-4) have "reply_of (Inr r) = Some c" by (simp add: reply_of_def)
  with assms(1) show ?thesis by (rule chat_exchange_reply)
qed

lemma chat_exchange_success_witness:
  "\<not> blank (input ((chat_init [])\<lparr>input := ''Hello''\<rparr>)) \<and>
   resp_ok \<lparr>status = 200, statusText = ''OK'', body = Inr (JObj [(''response'', JStr ''Hi there'')])\<rparr> \<and>
   js_prop (JObj [(''response'', JStr ''Hi there'')]) ''response'' = Inr (Some (JStr ''Hi there'')) \<and>
   messages (fst (chat_exchange 100 200
      (Inr \<lparr>status = 200, statusText = ''OK'', body = Inr (JObj [(''response'', JStr ''Hi there'')])\<rparr>)
      ((chat_init [])\<lparr>input := ''Hello''\<rparr>))) =
     [\<lparr>msg_id = ''100'', content = Some (JStr ''Hello''), role = User, timestamp = 100\<rparr>,
      \<lparr>msg_id = ''201'', content = Some (JStr ''Hi there''), role = Assistant, timestamp = 200\<rparr>]"
proof -
  have ids: "show_nat 100 = ''100''" "show_nat 201 = ''201''" by code_simp+
  show ?thesis
    using chat_exchange_success [of "(chat_init [])\<lparr>input := ''Hello''\<rparr>"
        "\<lparr>status = 200, statusText = ''OK'', body = Inr (JObj [(''response'', JStr ''Hi there'')])\<rparr>"
        "JObj [(''response'', JStr ''Hi there'')]" "Some (JStr ''Hi there'')" 100 200]
    by (simp add: resp_ok_def chat_init_def user_msg_def assistant_msg_def ids)
qed

text \<open>C4: when the call fails, the user message stays in the list (no rollback), no
  assistant message is added, the hook records the error and the thrown message is
  passed to \<open>onError\<close>.\<close>

theorem chat_exchange_failure:
  assumes "\<not> blank (input s)" and "call_result HookTS out = Inl e"
  shows "chat_exchange t0 t1 out s =
    (s\<lparr>messages := messages s @ [user_msg t0 (input s)], input := [],
       chat_api := (chat_api s)\<lparr>isLoading := False, error := Some (error_text HookTS e)\<rparr>\<rparr>,
     Some (exn_message e))"
  using assms by (simp add: chat_exchange_def chat_submit_Some chat_resume_def call_start_def)

lemma chat_exchange_failure_witness:
  "\<not> blank (input ((chat_init [])\<lparr>input := ''Hello''\<rparr>)) \<and>
   call_result HookTS (Inr \<lparr>status = 500, statusText = [], body = Inl []\<rparr>) =
     Inl (js_error (''HTTP error! status: '' @ show_nat 500)) \<and>
   snd (chat_exchange 1 2 (Inr \<lparr>status = 500, statusText = [], body = Inl []\<rparr>)
     ((chat_init [])\<lparr>input := ''Hello''\<rparr>)) = Some (''HTTP error! status: '' @ show_nat 500)"
  using chat_exchange_failure [of "(chat_init [])\<lparr>input := ''Hello''\<rparr>"
      "Inr \<lparr>status = 500, statusText = [], body = Inl []\<rparr>"
      "js_error (''HTTP error! status: '' @ show_nat 500)" 1 2]
  by (simp add: resp_ok_def chat_init_def)

text \<open>C31: a 2xx answer whose body is JSON \<open>null\<close> makes \<open>response.response\<close>
  throw after \<open>callApi\<close> returned: \<open>onError\<close> receives the \<open>TypeError\<close>, the
  panel's own error stays empty (nothing is rendered inline) and no assistant message
  is added.\<close>

theorem chat_exchange_null_body:
  assumes "\<not> blank (input s)" and "resp_ok r" and "body r = Inr JNull"
  shows "chat_exchange t0 t1 (Inr r) s =
    (s\<lparr>messages := messages s @ [user_msg t0 (input s)], input := [],
       chat_api := (chat_api s)\<lparr>isLoading := False, error := None\<rparr>\<rparr>,
     Some (''Cannot read properties of null (reading '' @ [CHR 0x27] @ ''response'' @ [CHR 0x27] @ '')''))"
  using assms
  by (simp add: chat_exchange_def chat_submit_Some chat_resume_def call_start_def type_error_def)

lemma chat_exchange_null_body_witness:
  "\<not> blank (input ((chat_init [])\<lparr>input := ''Hello''\<rparr>)) \<and>
   resp_ok \<lparr>status = 200, statusText = ''OK'', body = Inr JNull\<rparr> \<and>
   error (chat_api (fst (chat_exchange 1 2 (Inr \<lparr>status = 200, statusText = ''OK'', body = Inr JNull\<rparr>)
     ((chat_init [])\<lparr>input := ''Hello''\<rparr>)))) = None"
  using chat_exchange_null_body [of "(chat_init [])\<lparr>input := ''Hello''\<rparr>"
      "\<lparr>status = 200, statusText = ''OK'', body = Inr JNull\<rparr>" 1 2]
  by (simp add: resp_ok_def chat_init_def)

text \<open>C8: submitting a blank input (empty or only white space) changes nothing and
  issues no request, whatever the network would answer.\<close>

theorem chat_submit_blank:
  assumes "blank (input s)"
  shows "chat_submit now s = None \<and> chat_exchange t0 t1 out s = (s, None)"
  using assms by (simp add: chat_submit_def chat_exchange_def)

lemma chat_submit_blank_witness:
  "blank (input ((chat_init [])\<lparr>input := [CHR '' '', CHR 0x09]\<rparr>)) \<and>
   chat_submit 7 ((chat_init [])\<lparr>input := [CHR '' '', CHR 0x09]\<rparr>) = None"
proof -
  have b: "blank (input ((chat_init [])\<lparr>input := [CHR '' '', CHR 0x09]\<rparr>))"
    by (simp add: blank_iff_all_ws js_ws_def)
  from chat_submit_blank [OF b, of 7] b show ?thesis by simp
qed

text \<open>C9: after a session of \<open>k\<close> non-blank submissions that are all answered,
  the list has grown by \<open>2k\<close> messages alternating user, assistant, starting with
  the user's.\<close>

theorem chat_session_alternates:
  assumes "\<forall>(txt, t0, t1, out) \<in> set evs. \<not> blank txt \<and> reply_of out \<noteq> None"
  shows "map role (messages (chat_session evs s)) =
           map role (messages s) @ concat (replicate (length evs) [User, Assistant])"
  using assms
proof (induction evs arbitrary: s)
  case Nil
  then show ?case by simp
next
  case (Cons ev evs)
  obtain str t0 t1 out where ev: "ev = (str, t0, t1, out)" by (cases ev) auto
  with Cons.prems obtain c where nb: "\<not> blank str" and rep: "reply_of out = Some c" by auto
  let ?s = "fst (chat_exchange t0 t1 out (s\<lparr>input := str\<rparr>))"
  have "map role (messages ?s) = map role (messages s) @ [User, Assistant]"
    using chat_exchange_reply [of "s\<lparr>input := str\<rparr>" out c t0 t1] nb rep
    by (simp add: user_msg_def assistant_msg_def)
  with Cons.IH [of ?s] Cons.prems ev show ?case by simp
qed

lemma chat_session_alternates_witness:
  "\<not> blank ''Hello'' \<and>
   reply_of (Inr \<lparr>status = 200, statusText = ''OK'', body = Inr (JObj [(''response'', JStr ''Hi'')])\<rparr>) \<noteq> None \<and>
   map role (messages (chat_session [(''Hello'', 1, 2, Inr \<lparr>status = 200, statusText = ''OK'',
        body = Inr (JObj [(''response'', JStr ''Hi'')])\<rparr>)] (chat_init []))) = [User, Assistant]"
proof -
  have h: "\<forall>(txt, t0, t1, out) \<in> set [(''Hello'', 1::nat, 2::nat, Inr \<lparr>status = 200, statusText = ''OK'',
        body = Inr (JObj [(''response'', JStr ''Hi'')])\<rparr> :: fetch_outcome)].
      \<not> blank txt \<and> reply_of out \<noteq> None"
    by (simp add: reply_of_def resp_ok_def)
  from chat_session_alternates [OF h, of "chat_init []"] h show ?thesis
    by (simp add: chat_init_def)
qed

text \<open>C10: because the form is disabled while a request is in flight, a chat panel
  never has two requests in flight, and its \<open>isLoading\<close> is set exactly while it
  has one: its sends are serialized.\<close>

theorem chat_reach_serialized:
  assumes "chat_reach ms (s, n)"
  shows "n \<le> 1 \<and> (isLoading (chat_api s) \<longleftrightarrow> n = 1)"
  using chat_reach_chat_inv [OF assms] by (simp add: chat_inv_def Let_def)

lemma chat_reach_serialized_witness:
  "chat_reach [] (\<lparr>messages = [user_msg 5 ''a''], input = [], chat_api = call_start api_init\<rparr>, 1) \<and>
   isLoading (call_start api_init)"
  using chat_reach_serialized [OF chat_reach_submit_a] chat_reach_submit_a by simp

text \<open>C11: in every reachable state the initial messages are kept as a prefix and,
  after them, every assistant message directly follows a user message.\<close>

theorem chat_reach_replies_follow:
  assumes "chat_reach ms (s, n)"
  shows "take (length ms) (messages s) = ms \<and>
         replies_follow (map role (drop (length ms) (messages s)))"
  using chat_reach_chat_inv [OF assms] by (simp add: chat_inv_def Let_def)

lemma chat_reach_replies_follow_witness:
  "chat_reach [] (\<lparr>messages = [user_msg 5 ''a''], input = [], chat_api = call_start api_init\<rparr>, 1) \<and>
   replies_follow [User]"
  using chat_reach_replies_follow [OF chat_reach_submit_a] chat_reach_submit_a
  by (simp add: user_msg_def)



text \<open>C32: message ids are not unique: a reply received at millisecond 9 gets id
  \<open>"10"\<close>, and a message the user submits at millisecond 10 gets the same id
  (the React key of both).\<close>

theorem chat_duplicate_ids:
  "\<exists>c. chat_reach [] c \<and> \<not> distinct (map msg_id (messages (fst c)))"
proof -
  define out :: fetch_outcome where
    "out = Inr \<lparr>status = 200, statusText = ''OK'', body = Inr (JObj [(''response'', JStr ''b'')])\<rparr>"
  define s2 where "s2 = \<lparr>messages = [user_msg 5 ''a''], input = [], chat_api = call_start api_init\<rparr>"
  define s3 where "s3 = fst (chat_resume 9 out s2)"
  have rep: "reply_of out = Some (Some (JStr ''b''))"
    by (simp add: out_def reply_of_def resp_ok_def)
  have r2: "chat_reach [] (s2, Suc 0)" using chat_reach_submit_a by (simp add: s2_def)
  have r3: "chat_reach [] (s3, 0)"
    unfolding s3_def by (rule chat_reach.step [OF r2 chat_step.resume])
  have s3: "s3 = \<lparr>messages = [user_msg 5 ''a'', assistant_msg 9 (Some (JStr ''b''))], input = [],
      chat_api = (call_start api_init)\<lparr>isLoading := False\<rparr>\<rparr>"
  proof -
    have "call_result HookTS out = Inr (JObj [(''response'', JStr ''b'')])"
      by (simp add: out_def resp_ok_def)
    with chat_resume_reply [OF rep, of 9 s2] show ?thesis
      by (simp add: s3_def s2_def)
  qed
  have nl: "\<not> isLoading (chat_api s3)" by (simp add: s3)
  have r4: "chat_reach [] (s3\<lparr>input := ''c''\<rparr>, 0)"
    by (rule chat_reach.step [OF r3 chat_step.edit [OF nl]])
  let ?s5 = "\<lparr>messages = [user_msg 5 ''a'', assistant_msg 9 (Some (JStr ''b'')), user_msg 10 ''c''],
      input = [], chat_api = call_start ((call_start api_init)\<lparr>isLoading := False\<rparr>)\<rparr>"
  have "chat_step (s3\<lparr>input := ''c''\<rparr>, 0) (?s5, Suc 0)"
    by (rule chat_step.submit [where now = 10 and rq = "chat_request ''c''"])
      (simp_all add: s3 chat_submit_Some)
  from chat_reach.step [OF r4 this] have "chat_reach [] (?s5, Suc 0)" .
  moreover have "\<not> distinct (map msg_id (messages ?s5))"
    by (simp add: user_msg_def assistant_msg_def)
  ultimately show ?thesis by auto
qed

end
