(* ===== verification/Dashboard.thy ===== *)
theory Dashboard
  imports ChatPanel
begin

text \<open>
  The legacy combined dashboard of \<open>src/claude_interface.js\<close>: one component that
  holds the active tab, its own message list, the metrics shown, the training flag,
  the input and a single-entry metrics cache, and shares one instance of the hook
  between all its calls (the untyped hook, \<open>HookJS\<close>). Each handler is split at
  its \<open>await\<close>: the synchronous part returns the calls it leaves in flight
  (\<open>pending\<close>), and \<open>dash_resolve\<close> is the continuation of one of them. After
  every state change React commits and runs the effect of lines 49-53 when its
  dependencies changed: \<open>fetchMetrics\<close> is rebuilt whenever the cache entry
  changes, so the dependencies are the tab and the cache entry.
\<close>

section \<open>State\<close>

record legacy_msg =
  lm_role :: role
  lm_content :: jsval

text \<open>\<open>cachedMetrics\<close>: \<open>{data: null, timestamp: null}\<close> initially.\<close>

record cache_entry =
  cache_data :: jsval
  cache_ts :: "time option"

record dash_state =
  activeTab :: tab
  d_messages :: "legacy_msg list"
  mlMetrics :: jsval
  isTraining :: bool
  d_input :: string
  d_api :: api_state
  cachedMetrics :: cache_entry
  fx_deps :: "tab \<times> cache_entry"

definition cache_init :: cache_entry where
  "cache_init = \<lparr>cache_data = Some JNull, cache_ts = None\<rparr>"

definition dash_init :: dash_state where
  "dash_init =
     \<lparr>activeTab = ChatTab, d_messages = [], mlMetrics = Some (JObj []), isTraining = False,
      d_input = [], d_api = api_init, cachedMetrics = cache_init, fx_deps = (ChatTab, cache_init)\<rparr>"

text \<open>A call left in flight by a handler, with what its continuation needs.\<close>

datatype pending = PMetrics | PSend string | PClear | PTrain

section \<open>Handlers\<close>

text \<open>The cache test of line 32: a \<open>null\<close> or \<open>0\<close> timestamp is falsy; the
  difference is taken on JavaScript numbers, so a clock set back counts as fresh.\<close>

definition cache_fresh :: "time \<Rightarrow> cache_entry \<Rightarrow> bool" where
  "cache_fresh now c \<longleftrightarrow>
     (case cache_ts c of None \<Rightarrow> False | Some ts \<Rightarrow> ts \<noteq> 0 \<and> int now - int ts < 300000)"

definition fetchMetrics :: "time \<Rightarrow> dash_state \<Rightarrow> dash_state \<times> pending list" where
  "fetchMetrics now s =
     (if cache_fresh now (cachedMetrics s) then (s\<lparr>mlMetrics := cache_data (cachedMetrics s)\<rparr>, [])
      else (s\<lparr>d_api := call_start (d_api s)\<rparr>, [PMetrics]))"

definition sendMessage :: "string \<Rightarrow> dash_state \<Rightarrow> dash_state \<times> pending list" where
  "sendMessage msg s = (s\<lparr>d_api := call_start (d_api s)\<rparr>, [PSend msg])"

definition clearHistory :: "dash_state \<Rightarrow> dash_state \<times> pending list" where
  "clearHistory s = (s\<lparr>d_api := call_start (d_api s)\<rparr>, [PClear])"

definition startTraining :: "dash_state \<Rightarrow> dash_state \<times> pending list" where
  "startTraining s = (s\<lparr>d_api := call_start (d_api s)\<rparr>, [PTrain])"

definition handleKeyPress :: "string \<Rightarrow> bool \<Rightarrow> dash_state \<Rightarrow> dash_state \<times> pending list" where
  "handleKeyPress key shift s =
     (if key = ''Enter'' \<and> \<not> shift \<and> \<not> blank (d_input s)
      then sendMessage (js_trim (d_input s)) s else (s, []))"

text \<open>The continuation of a call when it settles at \<open>now\<close>: the hook's
  \<open>finally\<close> has run, then the handler's code after its \<open>await\<close>; every
  \<open>catch\<close> of the component only logs.\<close>

fun dash_resolve :: "time \<Rightarrow> pending \<Rightarrow> fetch_outcome \<Rightarrow> dash_state \<Rightarrow> dash_state" where
  "dash_resolve now p out s =
     (let r = call_result HookJS out; s1 = s\<lparr>d_api := call_settle HookJS r (d_api s)\<rparr> in
      case r of
        Inl _ \<Rightarrow> s1
      | Inr data \<Rightarrow>
          (case p of
             PMetrics \<Rightarrow> s1\<lparr>mlMetrics := Some data,
                           cachedMetrics := \<lparr>cache_data = Some data, cache_ts = Some now\<rparr>\<rparr>
           | PSend msg \<Rightarrow>
               (case js_prop data ''response'' of
                  Inl _ \<Rightarrow> s1
                | Inr c \<Rightarrow> s1\<lparr>d_messages := d_messages s1 @
                             [\<lparr>lm_role = User, lm_content = Some (JStr msg)\<rparr>,
                              \<lparr>lm_role = Assistant, lm_content = c\<rparr>],
                             d_input := []\<rparr>)
           | PClear \<Rightarrow> s1\<lparr>d_messages := []\<rparr>
           | PTrain \<Rightarrow> s1\<lparr>isTraining := True\<rparr>))"

declare dash_resolve.simps [simp del]

text \<open>The effect \<open>useEffect(..., [activeTab, fetchMetrics])\<close>, run after a commit.\<close>

definition run_effect :: "time \<Rightarrow> dash_state \<Rightarrow> dash_state \<times> pending list" where
  "run_effect now s =
     (if (activeTab s, cachedMetrics s) = fx_deps s then (s, [])
      else (let s' = s\<lparr>fx_deps := (activeTab s, cachedMetrics s)\<rparr> in
            if activeTab s = MetricsTab then fetchMetrics now s' else (s', [])))"

section \<open>Events and the rendered controls\<close>

datatype dash_event = ClickTab tab | Edit string | KeyPress string bool | ClickClear | ClickStartTraining

fun dash_handle :: "dash_event \<Rightarrow> dash_state \<Rightarrow> dash_state \<times> pending list" where
  "dash_handle (ClickTab t) s = (s\<lparr>activeTab := t\<rparr>, [])"
| "dash_handle (Edit str) s = (s\<lparr>d_input := str\<rparr>, [])"
| "dash_handle (KeyPress k sh) s = handleKeyPress k sh s"
| "dash_handle ClickClear s = clearHistory s"
| "dash_handle ClickStartTraining s = startTraining s"

text \<open>Which control exists and is enabled: the sidebar buttons always; the textarea
  on the chat tab unless loading; Clear History unless loading; Start New Training
  on the training tab while not training, unless loading.\<close>

fun enabled :: "dash_event \<Rightarrow> dash_state \<Rightarrow> bool" where
  "enabled (ClickTab t) s = True"
| "enabled (Edit str) s = (activeTab s = ChatTab \<and> \<not> isLoading (d_api s))"
| "enabled (KeyPress k sh) s = (activeTab s = ChatTab \<and> \<not> isLoading (d_api s))"
| "enabled ClickClear s = (\<not> isLoading (d_api s))"
| "enabled ClickStartTraining s = (activeTab s = TrainTab \<and> \<not> isTraining s \<and> \<not> isLoading (d_api s))"

definition remove_nth :: "nat \<Rightarrow> 'a list \<Rightarrow> 'a list" where
  "remove_nth i xs = take i xs @ drop (Suc i) xs"

inductive dash_step :: "dash_state \<times> pending list \<Rightarrow> dash_state \<times> pending list \<Rightarrow> bool" where
  event: "enabled e s \<Longrightarrow> dash_handle e s = (s1, ps) \<Longrightarrow> run_effect now s1 = (s2, ps2) \<Longrightarrow>
    dash_step (s, P) (s2, P @ ps @ ps2)"
| resolve: "i < length P \<Longrightarrow> run_effect now (dash_resolve now (P ! i) out s) = (s2, ps2) \<Longrightarrow>
    dash_step (s, P) (s2, remove_nth i P @ ps2)"

text \<open>The same two kinds of step as functions: one event handled and committed, and
  the \<open>i\<close>-th call in flight settled and committed.\<close>

definition dash_event_step :: "time \<Rightarrow> dash_event \<Rightarrow> dash_state \<times> pending list \<Rightarrow> dash_state \<times> pending list" where
  "dash_event_step now e c =
     (let (s1, ps) = dash_handle e (fst c); (s2, ps2) = run_effect now s1 in (s2, snd c @ ps @ ps2))"

definition dash_resolve_step ::
  "time \<Rightarrow> nat \<Rightarrow> fetch_outcome \<Rightarrow> dash_state \<times> pending list \<Rightarrow> dash_state \<times> pending list" where
  "dash_resolve_step now i out c =
     (let (s2, ps2) = run_effect now (dash_resolve now (snd c ! i) out (fst c))
      in (s2, remove_nth i (snd c) @ ps2))"

inductive dash_reach :: "dash_state \<times> pending list \<Rightarrow> bool" where
  init: "dash_reach (dash_init, [])"
| step: "dash_reach c \<Longrightarrow> dash_step c c' \<Longrightarrow> dash_reach c'"

section \<open>Invariant of the dashboard\<close>

text \<open>The message list is a sequence of (user, assistant) pairs whose user message is
  a non-blank string.\<close>

fun pairs_ok :: "legacy_msg list \<Rightarrow> bool" where
  "pairs_ok [] = True"
| "pairs_ok (u # a # ms) =
     (lm_role u = User \<and> lm_role a = Assistant \<and>
      (case lm_content u of Some (JStr str) \<Rightarrow> \<not> blank str | _ \<Rightarrow> False) \<and> pairs_ok ms)"
| "pairs_ok [_] = False"

definition sends_ok :: "pending list \<Rightarrow> bool" where
  "sends_ok P = list_all (\<lambda>p. case p of PSend m \<Rightarrow> \<not> blank m | _ \<Rightarrow> True) P"

definition dash_inv :: "dash_state \<times> pending list \<Rightarrow> bool" where
  "dash_inv c \<longleftrightarrow>
     pairs_ok (d_messages (fst c)) \<and> sends_ok (snd c) \<and> (isLoading (d_api (fst c)) \<longrightarrow> snd c \<noteq> [])"

section \<open>Frame lemmas\<close>

lemma fetchMetrics_frame [panel_simps]:
  "d_messages (fst (fetchMetrics now s)) = d_messages s"
  "isTraining (fst (fetchMetrics now s)) = isTraining s"
  "set (snd (fetchMetrics now s)) \<subseteq> {PMetrics}"
  "isLoading (d_api (fst (fetchMetrics now s))) \<longrightarrow> isLoading (d_api s) \<or> snd (fetchMetrics now s) \<noteq> []"
  by (simp_all add: fetchMetrics_def)

lemma run_effect_frame [panel_simps]:
  "d_messages (fst (run_effect now s)) = d_messages s"
  "isTraining (fst (run_effect now s)) = isTraining s"
  "set (snd (run_effect now s)) \<subseteq> {PMetrics}"
  "isLoading (d_api (fst (run_effect now s))) \<longrightarrow> isLoading (d_api s) \<or> snd (run_effect now s) \<noteq> []"
  by (simp_all add: run_effect_def fetchMetrics_def Let_def)

lemma dash_handle_frame [panel_simps]:
  "d_messages (fst (dash_handle e s)) = d_messages s"
  "isTraining (fst (dash_handle e s)) = isTraining s"
  "sends_ok (snd (dash_handle e s))"
  "isLoading (d_api (fst (dash_handle e s))) \<longrightarrow> isLoading (d_api s) \<or> snd (dash_handle e s) \<noteq> []"
  by (cases e; simp add: handleKeyPress_def sendMessage_def clearHistory_def startTraining_def sends_ok_def)+

lemma pairs_ok_snoc_pair:
  "pairs_ok (xs @ [u, a]) \<longleftrightarrow> pairs_ok xs \<and> pairs_ok [u, a]"
  by (induction xs rule: pairs_ok.induct) auto

lemma dash_resolve_messages:
  "d_messages (dash_resolve now p out s) = d_messages s \<or>
   d_messages (dash_resolve now p out s) = [] \<or>
   (\<exists>msg c. p = PSend msg \<and> d_messages (dash_resolve now p out s) =
      d_messages s @ [\<lparr>lm_role = User, lm_content = Some (JStr msg)\<rparr>, \<lparr>lm_role = Assistant, lm_content = c\<rparr>])"
  by (auto simp: dash_resolve.simps Let_def split: sum.split pending.split)

lemma dash_resolve_training: "isTraining s \<Longrightarrow> isTraining (dash_resolve now p out s)"
  by (auto simp: dash_resolve.simps Let_def split: sum.split pending.split)

lemma dash_resolve_not_loading [simp]: "\<not> isLoading (d_api (dash_resolve now p out s))"
  by (auto simp: dash_resolve.simps Let_def split: sum.split pending.split)

lemma sends_ok_append [simp]: "sends_ok (xs @ ys) \<longleftrightarrow> sends_ok xs \<and> sends_ok ys"
  by (simp add: sends_ok_def)

lemma sends_ok_metrics: "set ps \<subseteq> {PMetrics} \<Longrightarrow> sends_ok ps"
  by (auto simp: sends_ok_def list_all_iff)

lemma sends_ok_remove_nth: "sends_ok P \<Longrightarrow> sends_ok (remove_nth i P)"
  by (auto simp: sends_ok_def remove_nth_def list_all_iff dest: in_set_takeD in_set_dropD)

lemma sends_ok_nth: "sends_ok P \<Longrightarrow> i < length P \<Longrightarrow> P ! i = PSend m \<Longrightarrow> \<not> blank m"
  by (auto simp: sends_ok_def list_all_length)

lemma dash_step_eventI:
  "enabled e s \<Longrightarrow> dash_handle e s = (s1, ps) \<Longrightarrow> run_effect now s1 = (s2, ps2) \<Longrightarrow>
   P' = P @ ps @ ps2 \<Longrightarrow> dash_step (s, P) (s2, P')"
  by (auto intro: dash_step.event)

lemma dash_step_resolveI:
  "i < length P \<Longrightarrow> run_effect now (dash_resolve now (P ! i) out s) = (s2, ps2) \<Longrightarrow>
   P' = remove_nth i P @ ps2 \<Longrightarrow> dash_step (s, P) (s2, P')"
  by (auto intro: dash_step.resolve)

lemma dash_step_inv:
  assumes "dash_step c c'" and "dash_inv c"
  shows "dash_inv c'"
  using assms
proof (induction rule: dash_step.induct)
  case (event e s s1 ps now s2 ps2 P)
  have m: "d_messages s2 = d_messages s"
    using run_effect_frame(1) [of now s1] dash_handle_frame(1) [of e s] event.hyps by simp
  have so: "sends_ok ps" "sends_ok ps2"
    using dash_handle_frame(3) [of e s] sends_ok_metrics [OF run_effect_frame(3) [of now s1]] event.hyps
    by simp_all
  have "isLoading (d_api s2) \<longrightarrow> isLoading (d_api s) \<or> ps \<noteq> [] \<or> ps2 \<noteq> []"
    using run_effect_frame(4) [of now s1] dash_handle_frame(4) [of e s] event.hyps by auto
  with m so event.prems show ?case by (auto simp: dash_inv_def)
next
  case (resolve i P now out s s2 ps2)
  let ?s1 = "dash_resolve now (P ! i) out s"
  have pre: "pairs_ok (d_messages s)" "sends_ok P" using resolve.prems by (simp_all add: dash_inv_def)
  have m: "d_messages s2 = d_messages ?s1"
    using run_effect_frame(1) [of now ?s1] resolve.hyps by simp
  have "pairs_ok (d_messages ?s1)"
  proof -
    consider "d_messages ?s1 = d_messages s" | "d_messages ?s1 = []"
      | msg c where "P ! i = PSend msg" "d_messages ?s1 = d_messages s @
          [\<lparr>lm_role = User, lm_content = Some (JStr msg)\<rparr>, \<lparr>lm_role = Assistant, lm_content = c\<rparr>]"
      using dash_resolve_messages [of now "P ! i" out s] by blast
    then show ?thesis
    proof cases
      case 3
      then have "\<not> blank msg" using sends_ok_nth [OF pre(2) resolve.hyps(1)] by blast
      with 3 pre(1) show ?thesis by (simp add: pairs_ok_snoc_pair)
    qed (use pre in simp_all)
  qed
  moreover have "sends_ok (remove_nth i P @ ps2)"
    using sends_ok_remove_nth [OF pre(2)] sends_ok_metrics [OF run_effect_frame(3) [of now ?s1]] resolve.hyps
    by simp
  moreover have "isLoading (d_api s2) \<longrightarrow> ps2 \<noteq> []"
    using run_effect_frame(4) [of now ?s1] resolve.hyps by simp
  ultimately show ?case using m by (simp add: dash_inv_def)
qed

lemma dash_reach_inv: "dash_reach c \<Longrightarrow> dash_inv c"
proof (induction rule: dash_reach.induct)
  case init
  show ?case by (simp add: dash_inv_def dash_init_def sends_ok_def api_init_def)
next
  case (step c c')
  then show ?case by (blast intro: dash_step_inv)
qed

section \<open>Properties of the dashboard\<close>

text \<open>C5: after a successful metrics fetch settled at time \<open>t\<close>, a later
  \<open>fetchMetrics\<close> issues no request exactly when it runs less than 300000 ms after
  \<open>t\<close>, and then shows the cached data.\<close>

theorem metrics_cache_window:
  assumes "0 < t" and "t \<le> now" and "call_result HookJS out = Inr data"
  shows "(snd (fetchMetrics now (dash_resolve t PMetrics out s)) = [] \<longleftrightarrow> now < t + 300000) \<and>
         (now < t + 300000 \<longrightarrow>
            mlMetrics (fst (fetchMetrics now (dash_resolve t PMetrics out s))) = Some data)"
  using assms by (auto simp: fetchMetrics_def cache_fresh_def dash_resolve.simps)

lemma metrics_cache_window_witness:
  "0 < (1000::nat) \<and> (1000::nat) \<le> 2000 \<and>
   call_result HookJS (Inr \<lparr>status = 200, statusText = ''OK'',
     body = Inr (JArr [JObj [(''name'', JStr ''epoch1''), (''accuracy'', JNum (1/2)), (''loss'', JNum (9/10))]])\<rparr>) =
     Inr (JArr [JObj [(''name'', JStr ''epoch1''), (''accuracy'', JNum (1/2)), (''loss'', JNum (9/10))]]) \<and>
   snd (fetchMetrics 2000 (dash_resolve 1000 PMetrics (Inr \<lparr>status = 200, statusText = ''OK'',
     body = Inr (JArr [JObj [(''name'', JStr ''epoch1''), (''accuracy'', JNum (1/2)), (''loss'', JNum (9/10))]])\<rparr>) dash_init)) = []"
proof -
  have h: "call_result HookJS (Inr \<lparr>status = 200, statusText = ''OK'',
     body = Inr (JArr [JObj [(''name'', JStr ''epoch1''), (''accuracy'', JNum (1/2)), (''loss'', JNum (9/10))]])\<rparr>) =
     Inr (JArr [JObj [(''name'', JStr ''epoch1''), (''accuracy'', JNum (1/2)), (''loss'', JNum (9/10))]])"
    by (simp add: resp_ok_def)
  from metrics_cache_window [of 1000 2000, OF _ _ h, of dash_init] h show ?thesis by simp
qed

text \<open>C6: a failed metrics fetch leaves the cache entry and the shown metrics as they
  were and only records the error.\<close>

theorem metrics_failure_keeps_cache:
  assumes "call_result HookJS out = Inl e"
  shows "cachedMetrics (dash_resolve now PMetrics out s) = cachedMetrics s \<and>
         mlMetrics (dash_resolve now PMetrics out s) = mlMetrics s \<and>
         error (d_api (dash_resolve now PMetrics out s)) = Some (exn_message e)"
  using assms by (simp add: dash_resolve.simps)

lemma metrics_failure_keeps_cache_witness:
  "call_result HookJS (Inl (js_error ''Failed to fetch'')) = Inl (js_error ''Failed to fetch'') \<and>
   error (d_api (dash_resolve 5 PMetrics (Inl (js_error ''Failed to fetch'')) dash_init)) = Some ''Failed to fetch''"
  using metrics_failure_keeps_cache [of "Inl (js_error ''Failed to fetch'')" "js_error ''Failed to fetch''" 5 dash_init]
  by simp

text \<open>C12: whatever the interleaving of user events and settling calls, the dashboard's
  message list is a sequence of (user, assistant) pairs with a non-blank user message:
  the pair is appended at once when the reply arrives.\<close>

theorem dash_reach_pairs:
  assumes "dash_reach c"
  shows "pairs_ok (d_messages (fst c))"
  using dash_reach_inv [OF assms] by (simp add: dash_inv_def)

lemma dash_reach_pairs_witness: "dash_reach (dash_init, []) \<and> pairs_ok (d_messages dash_init)"
  using dash_reach_pairs [OF dash_reach.init] dash_reach.init by simp

text \<open>C13: the shared loading flag is set only while some call is in flight.\<close>

theorem dash_reach_loading_in_flight:
  assumes "dash_reach c" and "isLoading (d_api (fst c))"
  shows "snd c \<noteq> []"
  using dash_reach_inv [OF assms(1)] assms(2) by (simp add: dash_inv_def)

text \<open>C36: the training flag, once set by a successful start, is never cleared.\<close>

theorem dash_training_stays:
  assumes "dash_step c c'" and "isTraining (fst c)"
  shows "isTraining (fst c')"
  using assms
proof (induction rule: dash_step.induct)
  case (event e s s1 ps now s2 ps2 P)
  then show ?case using run_effect_frame(2) [of now s1] dash_handle_frame(2) [of e s] by simp
next
  case (resolve i P now out s s2 ps2)
  then show ?case
    using run_effect_frame(2) [of now "dash_resolve now (P ! i) out s"] dash_resolve_training [of s now "P ! i" out]
    by simp
qed

lemma dash_event_step_step: "enabled e (fst c) \<Longrightarrow> dash_step c (dash_event_step now e c)"
  by (cases c; cases "dash_handle e (fst c)"; cases "run_effect now (fst (dash_handle e (fst c)))")
    (auto simp: dash_event_step_def intro: dash_step.event)

lemma dash_resolve_step_step: "i < length (snd c) \<Longrightarrow> dash_step c (dash_resolve_step now i out c)"
  by (cases c; cases "run_effect now (dash_resolve now (snd c ! i) out (fst c))")
    (auto simp: dash_resolve_step_def intro: dash_step.resolve)

lemmas dash_eval_simps = dash_event_step_def dash_resolve_step_def run_effect_def fetchMetrics_def
  handleKeyPress_def sendMessage_def clearHistory_def startTraining_def cache_fresh_def cache_init_def
  dash_init_def api_init_def remove_nth_def dash_resolve.simps

lemma hi_trimmed [simp]: "\<not> blank ''hi''" "js_trim ''hi'' = ''hi''"
  by (simp_all add: blank_iff_all_ws js_ws_def js_trim_def)

text \<open>The run of the counterexample below up to the send: \<open>"hi"\<close> typed and sent.\<close>

lemma dash_reach_sent:
  "dash_reach (dash_event_step 2 (KeyPress ''Enter'' False) (dash_event_step 1 (Edit ''hi'') (dash_init, [])))
   \<and> snd (dash_event_step 2 (KeyPress ''Enter'' False) (dash_event_step 1 (Edit ''hi'') (dash_init, []))) = [PSend ''hi'']
   \<and> isLoading (d_api (fst (dash_event_step 2 (KeyPress ''Enter'' False) (dash_event_step 1 (Edit ''hi'') (dash_init, [])))))
   \<and> activeTab (fst (dash_event_step 2 (KeyPress ''Enter'' False) (dash_event_step 1 (Edit ''hi'') (dash_init, [])))) = ChatTab"
proof -
  let ?c1 = "dash_event_step 1 (Edit ''hi'') (dash_init, [])"
  have r1: "dash_reach ?c1"
    by (rule dash_reach.step [OF dash_reach.init dash_event_step_step]) (simp add: dash_init_def api_init_def)
  have e2: "enabled (KeyPress ''Enter'' False) (fst ?c1)" by (simp add: dash_eval_simps)
  have "dash_reach (dash_event_step 2 (KeyPress ''Enter'' False) ?c1)"
    by (rule dash_reach.step [OF r1 dash_event_step_step [OF e2]])
  then show ?thesis by (simp add: dash_eval_simps)
qed

lemma dash_reach_loading_in_flight_witness:
  "dash_reach (dash_event_step 2 (KeyPress ''Enter'' False) (dash_event_step 1 (Edit ''hi'') (dash_init, []))) \<and>
   isLoading (d_api (fst (dash_event_step 2 (KeyPress ''Enter'' False) (dash_event_step 1 (Edit ''hi'') (dash_init, []))))) \<and>
   snd (dash_event_step 2 (KeyPress ''Enter'' False) (dash_event_step 1 (Edit ''hi'') (dash_init, []))) \<noteq> []"
  using dash_reach_sent dash_reach_loading_in_flight [of "dash_event_step 2 (KeyPress ''Enter'' False)
     (dash_event_step 1 (Edit ''hi'') (dash_init, []))"] by blast

lemma dash_training_stays_witness:
  "dash_step (dash_init\<lparr>isTraining := True\<rparr>, []) (dash_event_step 0 (ClickTab ChatTab) (dash_init\<lparr>isTraining := True\<rparr>, [])) \<and>
   isTraining (fst (dash_event_step 0 (ClickTab ChatTab) (dash_init\<lparr>isTraining := True\<rparr>, [])))"
proof -
  have st: "dash_step (dash_init\<lparr>isTraining := True\<rparr>, []) (dash_event_step 0 (ClickTab ChatTab) (dash_init\<lparr>isTraining := True\<rparr>, []))"
    by (rule dash_event_step_step) simp
  from dash_training_stays [OF st] st show ?thesis by simp
qed

text \<open>C22: the spec's "isLoading is true strictly while a call is in flight" fails in
  the dashboard: a message is sent, the user switches to the metrics tab (the effect
  starts a metrics fetch on the same hook), the fetch fails first and clears the flag
  while the message is still in flight; the textarea is enabled again.\<close>

theorem dash_loading_cleared_in_flight:
  "\<exists>c. dash_reach c \<and> snd c = [PSend ''hi''] \<and> \<not> isLoading (d_api (fst c))"
proof -
  let ?c2 = "dash_event_step 2 (KeyPress ''Enter'' False) (dash_event_step 1 (Edit ''hi'') (dash_init, []))"
  let ?c3 = "dash_event_step 3 (ClickTab MetricsTab) ?c2"
  let ?c4 = "dash_resolve_step 4 1 (Inl (js_error ''Failed to fetch'')) ?c3"
  have r3: "dash_reach ?c3"
    by (rule dash_reach.step [OF conjunct1 [OF dash_reach_sent] dash_event_step_step]) simp
  have len: "1 < length (snd ?c3)" by (simp add: dash_eval_simps)
  have "dash_reach ?c4" by (rule dash_reach.step [OF r3 dash_resolve_step_step [OF len]])
  moreover have "snd ?c4 = [PSend ''hi''] \<and> \<not> isLoading (d_api (fst ?c4))"
    by (simp add: dash_eval_simps)
  ultimately show ?thesis by blast
qed

end
