(* ===== verification/DashboardRuns.thy ===== *)
theory DashboardRuns
  imports Dashboard
begin

text \<open>
  Runs of the legacy dashboard of \<open>src/claude_interface.js\<close>: what happens when the
  calls in flight settle. Every step ends with the commit and the effect of lines
  49-53, so the effect's dependencies are always those of the committed state. At a
  positive clock a settling call never starts another one: the cache entry it may
  write is fresh when the effect re-runs. Hence every call settles for good, and once
  each call in flight has settled, whatever the outcomes, the dashboard is idle. The
  calls themselves are not bounded: switching tabs starts a metrics fetch each time
  the cache is empty, and replies are appended in the order they arrive.
\<close>

section \<open>Settling every call in flight\<close>

text \<open>The effect's dependencies are those of the state: \<open>useEffect\<close> has seen the
  last commit.\<close>

definition fx_synced :: "dash_state \<Rightarrow> bool" where
  "fx_synced s \<longleftrightarrow> fx_deps s = (activeTab s, cachedMetrics s)"

text \<open>A scheduler that settles the oldest call in flight with each outcome of the
  list in turn, at one clock reading; it stops when nothing is in flight.\<close>

fun settle_all :: "time \<Rightarrow> fetch_outcome list \<Rightarrow> dash_state \<times> pending list \<Rightarrow> dash_state \<times> pending list" where
  "settle_all now [] c = c"
| "settle_all now (out # outs) c =
     (if snd c = [] then c else settle_all now outs (dash_resolve_step now 0 out c))"

lemma fetchMetrics_deps [simp]:
  "activeTab (fst (fetchMetrics now s)) = activeTab s"
  "cachedMetrics (fst (fetchMetrics now s)) = cachedMetrics s"
  "fx_deps (fst (fetchMetrics now s)) = fx_deps s"
  by (simp_all add: fetchMetrics_def)

lemma run_effect_synced: "fx_synced (fst (run_effect now s))"
  by (simp add: run_effect_def Let_def fx_synced_def)

lemma dash_step_synced: "dash_step c c' \<Longrightarrow> fx_synced (fst c')"
  by (induction rule: dash_step.induct) (metis fst_conv run_effect_synced)+

lemma dash_reach_synced: "dash_reach c \<Longrightarrow> fx_synced (fst c)"
  by (induction rule: dash_reach.induct) (auto simp: fx_synced_def dash_init_def dest: dash_step_synced)

lemma dash_resolve_deps:
  "activeTab (dash_resolve now p out s) = activeTab s"
  "fx_deps (dash_resolve now p out s) = fx_deps s"
  "cachedMetrics (dash_resolve now p out s) = cachedMetrics s \<or>
   cache_ts (cachedMetrics (dash_resolve now p out s)) = Some now"
  by (auto simp: dash_resolve.simps Let_def split: sum.split pending.split)

text \<open>At a positive clock the effect after a settled call starts nothing and leaves
  the hook's state as the call left it.\<close>

lemma run_effect_after_resolve:
  assumes "fx_synced s" and "0 < now"
  shows "snd (run_effect now (dash_resolve now p out s)) = [] \<and>
         d_api (fst (run_effect now (dash_resolve now p out s))) = d_api (dash_resolve now p out s)"
  using assms dash_resolve_deps [of now p out s]
  by (auto simp: run_effect_def fetchMetrics_def cache_fresh_def fx_synced_def Let_def)

lemma dash_resolve_step_at:
  assumes "fx_synced (fst c)" and "0 < now"
  shows "snd (dash_resolve_step now i out c) = remove_nth i (snd c) \<and>
         \<not> isLoading (d_api (fst (dash_resolve_step now i out c)))"
  using run_effect_after_resolve [OF assms, of "snd c ! i" out]
  by (cases "run_effect now (dash_resolve now (snd c ! i) out (fst c))") (simp add: dash_resolve_step_def)

lemma length_remove_nth [simp]: "i < length xs \<Longrightarrow> length (remove_nth i xs) = length xs - 1"
  by (simp add: remove_nth_def)

lemma dash_reach_idle:
  assumes "dash_reach c" and "snd c = []"
  shows "\<not> isLoading (d_api (fst c))"
  using dash_reach_inv [OF assms(1)] assms(2) by (simp add: dash_inv_def)

text \<open>Two clicks, to the metrics tab and back, while the cache is empty: the effect
  starts one more metrics fetch and nothing else changes that the next toggle reads.\<close>

lemma tab_toggle:
  assumes "fx_synced (fst c)" and "activeTab (fst c) = ChatTab" and "cache_ts (cachedMetrics (fst c)) = None"
  shows "snd (dash_event_step now (ClickTab ChatTab) (dash_event_step now (ClickTab MetricsTab) c)) = snd c @ [PMetrics] \<and>
         activeTab (fst (dash_event_step now (ClickTab ChatTab) (dash_event_step now (ClickTab MetricsTab) c))) = ChatTab \<and>
         cachedMetrics (fst (dash_event_step now (ClickTab ChatTab) (dash_event_step now (ClickTab MetricsTab) c))) =
           cachedMetrics (fst c)"
  using assms by (simp add: dash_event_step_def run_effect_def fetchMetrics_def cache_fresh_def fx_synced_def Let_def)

lemma ab_trimmed [simp]: "js_trim ''a'' = ''a''" "\<not> blank ''b''" "js_trim ''b'' = ''b''"
  by (simp_all add: blank_iff_all_ws js_ws_def js_trim_def)

section \<open>Properties of runs\<close>

text \<open>C17: every settling call leaves for good: in a reachable state, at a positive
  clock, settling the \<open>i\<close>-th call in flight removes exactly that call and starts
  none, so the number of calls in flight strictly decreases.\<close>

theorem dash_settle_terminates:
  assumes "dash_reach c" and "0 < now" and "i < length (snd c)"
  shows "snd (dash_resolve_step now i out c) = remove_nth i (snd c) \<and>
         length (snd (dash_resolve_step now i out c)) < length (snd c)"
  using dash_resolve_step_at [OF dash_reach_synced [OF assms(1)] assms(2)] assms(3) by simp

lemma dash_settle_terminates_witness:
  "dash_reach (dash_event_step 1 (ClickTab MetricsTab) (dash_init, [])) \<and>
   snd (dash_event_step 1 (ClickTab MetricsTab) (dash_init, [])) = [PMetrics] \<and>
   snd (dash_resolve_step 2 0 (Inr \<lparr>status = 200, statusText = ''OK'', body = Inr (JArr [])\<rparr>)
     (dash_event_step 1 (ClickTab MetricsTab) (dash_init, []))) = []"
proof -
  have r: "dash_reach (dash_event_step 1 (ClickTab MetricsTab) (dash_init, []))"
    by (rule dash_reach.step [OF dash_reach.init dash_event_step_step]) simp
  have p: "snd (dash_event_step 1 (ClickTab MetricsTab) (dash_init, [])) = [PMetrics]"
    by (simp add: dash_eval_simps)
  from dash_settle_terminates [OF r, of 2 0 "Inr \<lparr>status = 200, statusText = ''OK'', body = Inr (JArr [])\<rparr>"] r p
  show ?thesis by (simp add: remove_nth_def)
qed

text \<open>C16: liveness under settlement: from any reachable state, once each call in
  flight has settled (oldest first, with any outcomes, at a positive clock), the
  dashboard has no call in flight and is not loading, and it got there by steps of
  the dashboard.\<close>

theorem settle_all_idle:
  assumes "dash_reach c" and "0 < now" and "length (snd c) \<le> length outs"
  shows "dash_step\<^sup>*\<^sup>* c (settle_all now outs c) \<and> snd (settle_all now outs c) = [] \<and>
         \<not> isLoading (d_api (fst (settle_all now outs c)))"
  using assms
proof (induction outs arbitrary: c)
  case Nil
  then show ?case using dash_reach_idle by simp
next
  case (Cons out outs)
  show ?case
  proof (cases "snd c = []")
    case True
    with Cons.prems show ?thesis by (simp add: dash_reach_idle)
  next
    case False
    let ?c' = "dash_resolve_step now 0 out c"
    have st: "dash_step c ?c'" using False by (intro dash_resolve_step_step) simp
    have r: "dash_reach ?c'" by (rule dash_reach.step [OF Cons.prems(1) st])
    have "length (snd ?c') \<le> length outs"
      using dash_resolve_step_at [OF dash_reach_synced [OF Cons.prems(1)] Cons.prems(2), of 0 out] False Cons.prems(3)
      by simp
    from Cons.IH [OF r Cons.prems(2) this] st False show ?thesis
      by (simp add: converse_rtranclp_into_rtranclp)
  qed
qed

lemma settle_all_idle_witness:
  "dash_reach (dash_event_step 2 (KeyPress ''Enter'' False) (dash_event_step 1 (Edit ''hi'') (dash_init, []))) \<and>
   length (snd (dash_event_step 2 (KeyPress ''Enter'' False) (dash_event_step 1 (Edit ''hi'') (dash_init, [])))) \<le>
     length [Inl (js_error ''Failed to fetch'')] \<and>
   snd (settle_all 3 [Inl (js_error ''Failed to fetch'')]
     (dash_event_step 2 (KeyPress ''Enter'' False) (dash_event_step 1 (Edit ''hi'') (dash_init, [])))) = []"
  using settle_all_idle [OF conjunct1 [OF dash_reach_sent], of 3 "[Inl (js_error ''Failed to fetch'')]"] dash_reach_sent
  by simp

text \<open>C25: the positive clock is needed: a metrics fetch that succeeds at
  \<open>Date.now() = 0\<close> stores the timestamp \<open>0\<close>, which the cache test reads as
  falsy, so on the metrics tab the effect immediately fetches again.\<close>

theorem metrics_refetch_at_zero:
  "\<exists>c. dash_reach c \<and> snd c = [PMetrics] \<and>
       snd (dash_resolve_step 0 0 (Inr \<lparr>status = 200, statusText = ''OK'', body = Inr (JArr [])\<rparr>) c) = [PMetrics]"
proof -
  let ?c = "dash_event_step 0 (ClickTab MetricsTab) (dash_init, [])"
  have "dash_reach ?c" by (rule dash_reach.step [OF dash_reach.init dash_event_step_step]) simp
  moreover have "snd ?c = [PMetrics] \<and>
    snd (dash_resolve_step 0 0 (Inr \<lparr>status = 200, statusText = ''OK'', body = Inr (JArr [])\<rparr>) ?c) = [PMetrics]"
    by (simp add: dash_eval_simps resp_ok_def)
  ultimately show ?thesis by blast
qed

text \<open>C24: no backpressure: for every \<open>k\<close> a reachable state has \<open>k\<close> metrics
  fetches in flight at once, started by switching to the metrics tab and back while
  no fetch has settled.\<close>

theorem dash_unbounded_in_flight: "\<exists>c. dash_reach c \<and> snd c = replicate k PMetrics"
proof -
  have "\<exists>c. dash_reach c \<and> snd c = replicate k PMetrics \<and> activeTab (fst c) = ChatTab \<and>
            cachedMetrics (fst c) = cache_init"
  proof (induction k)
    case 0
    show ?case using dash_reach.init by (intro exI [of _ "(dash_init, [])"]) (simp add: dash_init_def)
  next
    case (Suc k)
    then obtain c where r: "dash_reach c" and c: "snd c = replicate k PMetrics" "activeTab (fst c) = ChatTab"
      "cachedMetrics (fst c) = cache_init" by blast
    let ?c2 = "dash_event_step 1 (ClickTab ChatTab) (dash_event_step 1 (ClickTab MetricsTab) c)"
    have "dash_reach ?c2"
      by (rule dash_reach.step [OF dash_reach.step [OF r dash_event_step_step] dash_event_step_step]) simp_all
    moreover have "snd ?c2 = replicate (Suc k) PMetrics \<and> activeTab (fst ?c2) = ChatTab \<and>
                   cachedMetrics (fst ?c2) = cache_init"
      using tab_toggle [OF dash_reach_synced [OF r] c(2), of 1] c by (simp add: cache_init_def replicate_append_same)
    ultimately show ?case by blast
  qed
  then show ?thesis by blast
qed

text \<open>C23: replies are appended in arrival order, not submission order (the
  ordering gap the spec leaves open): \<open>"a"\<close> is sent, a failing metrics fetch clears
  the shared flag so that the textarea is enabled again, \<open>"b"\<close> is sent while
  \<open>"a"\<close> is still in flight (the calls in flight are listed in submission order),
  and when the reply to \<open>"b"\<close> arrives first its pair is shown before that of
  \<open>"a"\<close>.\<close>

theorem dash_replies_arrival_order:
  "\<exists>c c'. dash_reach c \<and> snd c = [PSend ''a'', PSend ''b''] \<and> dash_step\<^sup>*\<^sup>* c c' \<and> snd c' = [] \<and>
          map lm_content (d_messages (fst c')) = [Some (JStr ''b''), Some (JStr ''r''), Some (JStr ''a''), Some (JStr ''r'')]"
proof -
  let ?ok = "Inr \<lparr>status = 200, statusText = ''OK'', body = Inr (JObj [(''response'', JStr ''r'')])\<rparr>"
  let ?c2 = "dash_event_step 2 (KeyPress ''Enter'' False) (dash_event_step 1 (Edit ''a'') (dash_init, []))"
  let ?c4 = "dash_resolve_step 4 1 (Inl (js_error ''Failed to fetch'')) (dash_event_step 3 (ClickTab MetricsTab) ?c2)"
  let ?c6 = "dash_event_step 6 (Edit ''b'') (dash_event_step 5 (ClickTab ChatTab) ?c4)"
  let ?c7 = "dash_event_step 7 (KeyPress ''Enter'' False) ?c6"
  let ?c8 = "dash_resolve_step 8 1 ?ok ?c7"
  let ?c9 = "dash_resolve_step 9 0 ?ok ?c8"
  have r1: "dash_reach (dash_event_step 1 (Edit ''a'') (dash_init, []))"
    by (rule dash_reach.step [OF dash_reach.init dash_event_step_step]) (simp add: dash_init_def api_init_def)
  have r2: "dash_reach ?c2"
    by (rule dash_reach.step [OF r1 dash_event_step_step]) (simp add: dash_eval_simps)
  have r3: "dash_reach (dash_event_step 3 (ClickTab MetricsTab) ?c2)"
    by (rule dash_reach.step [OF r2 dash_event_step_step]) simp
  have r4: "dash_reach ?c4"
    by (rule dash_reach.step [OF r3 dash_resolve_step_step]) (simp add: dash_eval_simps)
  have idle4: "\<not> isLoading (d_api (fst ?c4))"
    by (simp add: dash_eval_simps)
  have r5: "dash_reach (dash_event_step 5 (ClickTab ChatTab) ?c4)"
    by (rule dash_reach.step [OF r4 dash_event_step_step]) simp
  have r6: "dash_reach ?c6"
    by (rule dash_reach.step [OF r5 dash_event_step_step]) (simp add: dash_eval_simps)
  have r7: "dash_reach ?c7"
    by (rule dash_reach.step [OF r6 dash_event_step_step]) (simp add: dash_eval_simps)
  have c7: "snd ?c7 = [PSend ''a'', PSend ''b'']"
    by (simp add: dash_eval_simps)
  have st8: "dash_step ?c7 ?c8" using c7 by (intro dash_resolve_step_step) simp
  have st9: "dash_step ?c8 ?c9" by (rule dash_resolve_step_step) (simp add: dash_eval_simps)
  have p9: "snd ?c9 = []"
    by (simp add: dash_eval_simps resp_ok_def)
  have m9: "map lm_content (d_messages (fst ?c9)) =
          [Some (JStr ''b''), Some (JStr ''r''), Some (JStr ''a''), Some (JStr ''r'')]"
    by (simp add: dash_eval_simps resp_ok_def)
  have rt: "dash_step\<^sup>*\<^sup>* ?c7 ?c9" using st8 st9 by simp
  show ?thesis
    by (rule exI [of _ ?c7], rule exI [of _ ?c9]) (intro conjI r7 c7 rt p9 m9)
qed


end
