(* ===== verification/TrainingPanel.thy ===== *)
theory TrainingPanel
  imports ApiClient
begin

text \<open>
  The training panel of \<open>src/frontend/src/components/MLPanel.tsx\<close>: the strategy
  description and the panel's own instance of the TS hook. \<open>handleSubmit\<close> is split
  at its \<open>await\<close> into \<open>ml_submit\<close> and \<open>ml_resume\<close>; the textarea is disabled
  while loading and the button also on a blank description, which gates
  \<open>ml_step\<close>.
\<close>

record ml_state =
  description :: string
  ml_api :: api_state

definition ml_init :: ml_state where
  "ml_init = \<lparr>description = [], ml_api = api_init\<rparr>"

definition ml_request :: "string \<Rightarrow> request" where
  "ml_request d =
     \<lparr>req_url = ''/api/v1/claude/start-training'', req_method = Some ''POST'',
      req_headers = [(''Content-Type'', ''application/json'')],
      req_body = Some (JObj [(''description'', JStr d)])\<rparr>"

definition ml_submit :: "ml_state \<Rightarrow> (ml_state \<times> request) option" where
  "ml_submit s =
     (if blank (description s) then None
      else Some (s\<lparr>ml_api := call_start (ml_api s)\<rparr>, fetch_request HookTS (ml_request (description s))))"

text \<open>The response body (\<open>{status}\<close>) is never read: any 2xx JSON answer counts as
  success.\<close>

definition ml_resume :: "fetch_outcome \<Rightarrow> ml_state \<Rightarrow> ml_state \<times> string option" where
  "ml_resume out s =
     (let r = call_result HookTS out; s1 = s\<lparr>ml_api := call_settle HookTS r (ml_api s)\<rparr> in
      case r of Inl e \<Rightarrow> (s1, Some (exn_message e)) | Inr _ \<Rightarrow> (s1\<lparr>description := []\<rparr>, None))"

definition ml_exchange :: "fetch_outcome \<Rightarrow> ml_state \<Rightarrow> ml_state \<times> string option" where
  "ml_exchange out s = (case ml_submit s of None \<Rightarrow> (s, None) | Some (s', _) \<Rightarrow> ml_resume out s')"

inductive ml_step :: "ml_state \<times> nat \<Rightarrow> ml_state \<times> nat \<Rightarrow> bool" where
  edit: "\<not> isLoading (ml_api s) \<Longrightarrow> ml_step (s, n) (s\<lparr>description := d\<rparr>, n)"
| submit: "\<not> isLoading (ml_api s) \<Longrightarrow> \<not> blank (description s) \<Longrightarrow>
    ml_submit s = Some (s', rq) \<Longrightarrow> ml_step (s, n) (s', Suc n)"
| resume: "ml_step (s, Suc n) (fst (ml_resume out s), n)"

section \<open>Properties of the training panel\<close>

text \<open>C34: a start-training request answered with a 2xx JSON body, whatever its
  content, clears the description and leaves no error.\<close>

theorem ml_exchange_success:
  assumes "\<not> blank (description s)" and "resp_ok r" and "body r = Inr j"
  shows "ml_exchange (Inr r) s =
    (s\<lparr>ml_api := (ml_api s)\<lparr>isLoading := False, error := None\<rparr>, description := []\<rparr>, None)"
  using assms by (simp add: ml_exchange_def ml_submit_def ml_resume_def call_start_def)

lemma ml_exchange_success_witness:
  "\<not> blank (description (ml_init\<lparr>description := ''momentum''\<rparr>)) \<and>
   resp_ok \<lparr>status = 202, statusText = ''Accepted'', body = Inr (JObj [(''status'', JStr ''started'')])\<rparr> \<and>
   description (fst (ml_exchange (Inr \<lparr>status = 202, statusText = ''Accepted'',
      body = Inr (JObj [(''status'', JStr ''started'')])\<rparr>) (ml_init\<lparr>description := ''momentum''\<rparr>))) = []"
proof -
  have nb: "\<not> blank (description (ml_init\<lparr>description := ''momentum''\<rparr>))"
    by (simp add: blank_iff_all_ws js_ws_def)
  have ok: "resp_ok \<lparr>status = 202, statusText = ''Accepted'', body = Inr (JObj [(''status'', JStr ''started'')])\<rparr>"
    by (simp add: resp_ok_def)
  from ml_exchange_success [OF nb ok, of "JObj [(''status'', JStr ''started'')]"] nb ok show ?thesis
    by simp
qed

text \<open>C35: a failed start keeps the description for another attempt, records the
  error and passes the thrown message to \<open>onError\<close>.\<close>

theorem ml_exchange_failure:
  assumes "\<not> blank (description s)" and "call_result HookTS out = Inl e"
  shows "ml_exchange out s =
    (s\<lparr>ml_api := (ml_api s)\<lparr>isLoading := False, error := Some (error_text HookTS e)\<rparr>\<rparr>,
     Some (exn_message e))"
  using assms by (simp add: ml_exchange_def ml_submit_def ml_resume_def call_start_def)

lemma ml_exchange_failure_witness:
  "\<not> blank (description (ml_init\<lparr>description := ''momentum''\<rparr>)) \<and>
   call_result HookTS (Inl (js_error ''Failed to fetch'')) = Inl (js_error ''Failed to fetch'') \<and>
   description (fst (ml_exchange (Inl (js_error ''Failed to fetch'')) (ml_init\<lparr>description := ''momentum''\<rparr>)))
     = ''momentum''"
proof -
  have nb: "\<not> blank (description (ml_init\<lparr>description := ''momentum''\<rparr>))"
    by (simp add: blank_iff_all_ws js_ws_def)
  from ml_exchange_failure [OF nb, of "Inl (js_error ''Failed to fetch'')" "js_error ''Failed to fetch''"] nb
  show ?thesis by simp
qed

end
