(* ===== verification/MetricsPanel.thy ===== *)
theory MetricsPanel
  imports ApiClient
begin

text \<open>
  The metrics panel of \<open>src/frontend/src/components/MetricsPanel.tsx\<close>: the fetched
  data, initially \<open>[]\<close>. Its mount effect calls \<open>fetch('/api/metrics')\<close> directly,
  without the hook: no loading flag, no check of \<open>response.ok\<close>; a thrown error goes
  to \<open>onError\<close> through \<open>handleError\<close>. The \<open>Metrics[]\<close> annotation is not checked
  at run time, so the data is any parsed JSON value.
\<close>

record mp_state =
  metricsData :: jsval

definition mp_init :: mp_state where
  "mp_init = \<lparr>metricsData = Some (JArr [])\<rparr>"

definition mp_request :: request where
  "mp_request = \<lparr>req_url = ''/api/metrics'', req_method = None, req_headers = [], req_body = None\<rparr>"

text \<open>\<open>fetchMetricsData\<close> after its \<open>await\<close>s: the new state and the message passed
  to \<open>onError\<close>, if any.\<close>

fun mp_fetch :: "fetch_outcome \<Rightarrow> mp_state \<Rightarrow> mp_state \<times> string option" where
  "mp_fetch (Inl e) s = (s, Some (exn_message e))"
| "mp_fetch (Inr r) s =
     (case body r of Inl m \<Rightarrow> (s, Some (exn_message (syntax_error m)))
                   | Inr j \<Rightarrow> (s\<lparr>metricsData := Some j\<rparr>, None))"

section \<open>Properties of the metrics panel\<close>

text \<open>C33: the panel does not check the status: an error response with a JSON body
  (a 500 with \<open>{"error": ...}\<close>, say) replaces the metrics with that body and reports
  nothing.\<close>

theorem mp_fetch_ignores_status:
  assumes "body r = Inr j"
  shows "mp_fetch (Inr r) s = (s\<lparr>metricsData := Some j\<rparr>, None)"
  using assms by simp

lemma mp_fetch_ignores_status_witness:
  "body \<lparr>status = 500, statusText = ''Internal Server Error'', body = Inr (JObj [(''error'', JStr ''boom'')])\<rparr> =
     Inr (JObj [(''error'', JStr ''boom'')]) \<and>
   \<not> resp_ok \<lparr>status = 500, statusText = ''Internal Server Error'', body = Inr (JObj [(''error'', JStr ''boom'')])\<rparr> \<and>
   metricsData (fst (mp_fetch (Inr \<lparr>status = 500, statusText = ''Internal Server Error'',
     body = Inr (JObj [(''error'', JStr ''boom'')])\<rparr>) mp_init)) = Some (JObj [(''error'', JStr ''boom'')])"
  using mp_fetch_ignores_status [of "\<lparr>status = 500, statusText = ''Internal Server Error'',
     body = Inr (JObj [(''error'', JStr ''boom'')])\<rparr>" "JObj [(''error'', JStr ''boom'')]" mp_init]
  by (simp add: resp_ok_def)

text \<open>A rejected fetch or an unparsable body leaves the data as it was and
  passes the error's message to \<open>onError\<close>.\<close>

theorem mp_fetch_error_keeps_data:
  assumes "out = Inl e \<or> (\<exists>r m. out = Inr r \<and> body r = Inl m \<and> exn_message e = m)"
  shows "mp_fetch out s = (s, Some (exn_message e))"
  using assms by (auto simp: syntax_error_def)

lemma mp_fetch_error_keeps_data_witness:
  "mp_fetch (Inl (js_error ''Failed to fetch'')) mp_init = (mp_init, Some ''Failed to fetch'')"
  using mp_fetch_error_keeps_data [of "Inl (js_error ''Failed to fetch'')" "js_error ''Failed to fetch''" mp_init]
  by simp

end
