(* ===== verification/Shell.thy ===== *)
theory Shell
  imports ChatPanel TrainingPanel MetricsPanel
begin

text \<open>
  The typed dashboard shell of \<open>src/frontend/src/components/claude_interface.tsx\<close>
  with the tab buttons of \<open>TabButton.tsx\<close>. The shell holds the active tab and an
  instance of the hook whose \<open>callApi\<close> it never calls; it renders exactly the
  panel of the active tab, so a tab change unmounts the old panel (its state is
  dropped) and mounts the new one afresh: the chat panel with
  \<open>initialMessages\<close>, the metrics panel with its mount-time fetch in flight. The
  state of each panel is kept with its count of requests in flight; only the mounted
  panel takes steps (a call of an unmounted panel that settles later updates
  nothing).
\<close>

record shell_state =
  sh_tab :: tab
  sh_api :: api_state
  sh_chat :: "chat_state \<times> nat"
  sh_ml :: "ml_state \<times> nat"
  sh_mp :: "mp_state \<times> nat"

definition shell_init :: "message list \<Rightarrow> shell_state" where
  "shell_init ims =
     \<lparr>sh_tab = ChatTab, sh_api = api_init, sh_chat = (chat_init ims, 0),
      sh_ml = (ml_init, 0), sh_mp = (mp_init, 0)\<rparr>"

text \<open>\<open>isSelected\<close> of a tab button.\<close>

definition tab_selected :: "tab \<Rightarrow> shell_state \<Rightarrow> bool" where
  "tab_selected t s \<longleftrightarrow> sh_tab s = t"

fun mount :: "message list \<Rightarrow> tab \<Rightarrow> shell_state \<Rightarrow> shell_state" where
  "mount ims ChatTab s = s\<lparr>sh_chat := (chat_init ims, 0)\<rparr>"
| "mount ims TrainTab s = s\<lparr>sh_ml := (ml_init, 0)\<rparr>"
| "mount ims MetricsTab s = s\<lparr>sh_mp := (mp_init, 1)\<rparr>"

text \<open>\<open>handleTabClick\<close>: setting the tab it already has is no state change for React.\<close>

definition handleTabClick :: "message list \<Rightarrow> tab \<Rightarrow> shell_state \<Rightarrow> shell_state" where
  "handleTabClick ims t s = (if t = sh_tab s then s else mount ims t (s\<lparr>sh_tab := t\<rparr>))"

inductive shell_step :: "message list \<Rightarrow> shell_state \<Rightarrow> shell_state \<Rightarrow> bool" for ims where
  click: "shell_step ims s (handleTabClick ims t s)"
| chat: "sh_tab s = ChatTab \<Longrightarrow> chat_step (sh_chat s) c' \<Longrightarrow> shell_step ims s (s\<lparr>sh_chat := c'\<rparr>)"
| train: "sh_tab s = TrainTab \<Longrightarrow> ml_step (sh_ml s) m' \<Longrightarrow> shell_step ims s (s\<lparr>sh_ml := m'\<rparr>)"
| metrics: "sh_tab s = MetricsTab \<Longrightarrow> snd (sh_mp s) = Suc n \<Longrightarrow>
    shell_step ims s (s\<lparr>sh_mp := (fst (mp_fetch out (fst (sh_mp s))), n)\<rparr>)"

inductive shell_reach :: "message list \<Rightarrow> shell_state \<Rightarrow> bool" for ims where
  init: "shell_reach ims (shell_init ims)"
| step: "shell_reach ims s \<Longrightarrow> shell_step ims s s' \<Longrightarrow> shell_reach ims s'"

lemma mount_sh_api [simp]: "sh_api (mount ims t s) = sh_api s" "sh_tab (mount ims t s) = sh_tab s"
  by (cases t; simp)+

lemma handleTabClick_sh_api [simp]: "sh_api (handleTabClick ims t s) = sh_api s"
  by (simp add: handleTabClick_def)

lemma handleTabClick_tab [simp]: "sh_tab (handleTabClick ims t s) = t"
  by (simp add: handleTabClick_def)

section \<open>Properties of the shell\<close>

text \<open>C37: the shell's own hook is never called, so in every reachable state its
  loading flag is off and its error is empty: the spinner and the error banner of the
  shell are never rendered, whatever the panels do.\<close>

theorem shell_banner_never_shown:
  assumes "shell_reach ims s"
  shows "sh_api s = api_init \<and> \<not> isLoading (sh_api s) \<and> \<not> shown (error (sh_api s))"
proof -
  from assms have "sh_api s = api_init"
    by (induction rule: shell_reach.induct) (auto simp: shell_init_def elim: shell_step.cases)
  then show ?thesis by (simp add: api_init_def shown_def)
qed

lemma shell_banner_never_shown_witness:
  "shell_reach [] (shell_init []) \<and> sh_api (shell_init []) = api_init \<and>
   \<not> isLoading (sh_api (shell_init [])) \<and> \<not> shown (error (sh_api (shell_init [])))"
  using shell_banner_never_shown [OF shell_reach.init] shell_reach.init by blast

text \<open>C39: leaving the chat tab and coming back discards the conversation: the chat
  panel is mounted again with \<open>initialMessages\<close> and an empty input, whatever it
  held before.\<close>

theorem shell_remount_resets_chat:
  assumes "sh_tab s = ChatTab"
  shows "sh_chat (handleTabClick ims ChatTab (handleTabClick ims TrainTab s)) = (chat_init ims, 0) \<and>
         sh_tab (handleTabClick ims ChatTab (handleTabClick ims TrainTab s)) = ChatTab"
  using assms by (simp add: handleTabClick_def)

lemma shell_remount_resets_chat_witness:
  "sh_tab ((shell_init [])\<lparr>sh_chat := (\<lparr>messages = [user_msg 5 ''a''], input = [], chat_api = api_init\<rparr>, 0)\<rparr>) = ChatTab \<and>
   sh_chat (handleTabClick [] ChatTab (handleTabClick [] TrainTab
     ((shell_init [])\<lparr>sh_chat := (\<lparr>messages = [user_msg 5 ''a''], input = [], chat_api = api_init\<rparr>, 0)\<rparr>)))
     = (chat_init [], 0)"
  using shell_remount_resets_chat [of "(shell_init [])\<lparr>sh_chat := (\<lparr>messages = [user_msg 5 ''a''], input = [],
     chat_api = api_init\<rparr>, 0)\<rparr>" "[]"]
  by (simp add: shell_init_def)

end
