(* ===== verification/Chart.thy ===== *)
theory Chart
  imports MetricsPanel
begin

text \<open>
  The metrics chart of \<open>src/frontend/src/components/PerformanceChart.tsx\<close> and its
  use by \<open>MetricsPanel.tsx\<close>. The component computes a chart description from its
  props (the data, passed through unchanged, and the colours chosen by
  \<open>darkMode\<close>) and hands it to \<open>recharts\<close>: an x-axis on the key \<open>name\<close> and two
  lines on the keys \<open>accuracy\<close> and \<open>loss\<close>. What \<open>recharts\<close> plots is modelled by
  \<open>chart_points\<close>: for an array of rows, the value of the x key and of a line's key
  in each row, in order (a row that is not an object, or lacks the key, gives
  \<open>undefined\<close>); anything but an array gives no points. The samples themselves are
  \<open>Metrics\<close> of \<open>types.ts\<close>, sent by the server as JSON objects with these three
  keys.
\<close>

record metrics =
  m_name :: string
  accuracy :: rat
  loss :: rat

text \<open>A sample as the server's JSON encodes it.\<close>

definition metrics_json :: "metrics \<Rightarrow> json" where
  "metrics_json m = JObj [(''name'', JStr (m_name m)), (''accuracy'', JNum (accuracy m)), (''loss'', JNum (loss m))]"

record chart_line =
  line_type :: string
  line_key :: string
  line_stroke :: string
  line_name :: string
  line_width :: nat
  dot_r :: nat
  active_dot_r :: nat

record chart =
  ch_label :: string
  ch_data :: jsval
  ch_margin :: "nat \<times> nat \<times> nat \<times> nat" \<comment> \<open>top, right, bottom, left\<close>
  grid_dash :: string
  grid_stroke :: string
  x_key :: string
  x_stroke :: string
  x_label :: string
  y_stroke :: string
  y_label :: string
  label_fill :: string
  tip_bg :: string
  tip_border :: string
  tip_radius :: string
  tip_color :: string
  ch_lines :: "chart_line list"

definition perf_line :: "string \<Rightarrow> string \<Rightarrow> string \<Rightarrow> chart_line" where
  "perf_line key stroke nm =
     \<lparr>line_type = ''monotone'', line_key = key, line_stroke = stroke, line_name = nm,
      line_width = 2, dot_r = 4, active_dot_r = 6\<rparr>"

text \<open>The component: \<open>darkMode\<close> is optional and defaults to \<open>false\<close>.\<close>

definition performance_chart :: "jsval \<Rightarrow> bool option \<Rightarrow> chart" where
  "performance_chart data darkMode =
     (let dark = (case darkMode of None \<Rightarrow> False | Some b \<Rightarrow> b);
          textColor = (if dark then ''#fff'' else ''#666'') in
      \<lparr>ch_label = ''Performance metrics chart'', ch_data = data, ch_margin = (10, 10, 20, 10),
       grid_dash = ''3 3'', grid_stroke = (if dark then ''#444'' else ''#ccc''),
       x_key = ''name'', x_stroke = textColor, x_label = ''Timeline'',
       y_stroke = textColor, y_label = ''Values'', label_fill = textColor,
       tip_bg = (if dark then ''rgba(0, 0, 0, 0.85)'' else ''rgba(255, 255, 255, 0.95)''),
       tip_border = ''1px solid '' @ (if dark then ''#444'' else ''#ccc''), tip_radius = ''4px'',
       tip_color = textColor,
       ch_lines = [perf_line ''accuracy'' ''#8884d8'' ''Accuracy'', perf_line ''loss'' ''#82ca9d'' ''Loss'']\<rparr>)"

text \<open>What the metrics panel renders: the chart of its data, in light mode.\<close>

definition mp_view :: "mp_state \<Rightarrow> chart" where
  "mp_view s = performance_chart (metricsData s) (Some False)"

text \<open>Reading a row at a data key, as \<open>recharts\<close> does.\<close>

fun row_get :: "json \<Rightarrow> string \<Rightarrow> jsval" where
  "row_get (JObj fs) k = map_of (rev fs) k"
| "row_get _ k = None"

definition chart_points :: "chart \<Rightarrow> string \<Rightarrow> (jsval \<times> jsval) list option" where
  "chart_points c k =
     (case ch_data c of Some (JArr rows) \<Rightarrow> Some (map (\<lambda>d. (row_get d (x_key c), row_get d k)) rows) | _ \<Rightarrow> None)"

text \<open>The plotted lines: each line's legend name with its points.\<close>

definition chart_series :: "chart \<Rightarrow> (string \<times> (jsval \<times> jsval) list option) list" where
  "chart_series c = map (\<lambda>l. (line_name l, chart_points c (line_key l))) (ch_lines c)"

lemma row_get_metrics_json [simp]:
  "row_get (metrics_json m) ''name'' = Some (JStr (m_name m))"
  "row_get (metrics_json m) ''accuracy'' = Some (JNum (accuracy m))"
  "row_get (metrics_json m) ''loss'' = Some (JNum (loss m))"
  by (simp_all add: metrics_json_def)

lemma performance_chart_fields [simp]:
  "ch_data (performance_chart data dm) = data"
  "x_key (performance_chart data dm) = ''name''"
  "map line_key (ch_lines (performance_chart data dm)) = [''accuracy'', ''loss'']"
  "map line_name (ch_lines (performance_chart data dm)) = [''Accuracy'', ''Loss'']"
  by (simp_all add: performance_chart_def perf_line_def Let_def)

lemma chart_series_data:
  "chart_series (performance_chart data dm) =
     [(''Accuracy'', chart_points (performance_chart data dm) ''accuracy''),
      (''Loss'', chart_points (performance_chart data dm) ''loss'')]"
  by (simp add: chart_series_def performance_chart_def perf_line_def Let_def del: performance_chart_fields)

lemma chart_points_data:
  "chart_points (performance_chart data dm) k =
     (case data of Some (JArr rows) \<Rightarrow> Some (map (\<lambda>d. (row_get d ''name'', row_get d k)) rows) | _ \<Rightarrow> None)"
  by (simp add: chart_points_def split: option.split json.split)

section \<open>Properties of the chart\<close>

text \<open>C19: the chart shows the samples as the server sent them: for an array of
  \<open>Metrics\<close> encoded as JSON, the Accuracy line plots each sample's name against its
  accuracy and the Loss line against its loss, in the order received, in either
  colour mode.\<close>

theorem chart_plots_samples:
  "chart_series (performance_chart (Some (JArr (map metrics_json ms))) dm) =
     [(''Accuracy'', Some (map (\<lambda>m. (Some (JStr (m_name m)), Some (JNum (accuracy m)))) ms)),
      (''Loss'', Some (map (\<lambda>m. (Some (JStr (m_name m)), Some (JNum (loss m)))) ms))]"
  by (simp add: chart_series_data chart_points_data)

text \<open>C20: composed with the metrics panel: before the fetch settles the chart has
  an empty array; after a response whose body is an array of samples it plots
  exactly them; after an error response with an object body (unchecked status,
  C33) it is given no array and plots nothing.\<close>

theorem metrics_panel_chart:
  "chart_series (mp_view mp_init) = [(''Accuracy'', Some []), (''Loss'', Some [])] \<and>
   (body r = Inr (JArr (map metrics_json ms)) \<longrightarrow>
      chart_series (mp_view (fst (mp_fetch (Inr r) s))) =
        chart_series (performance_chart (Some (JArr (map metrics_json ms))) None)) \<and>
   (body r = Inr (JObj fs) \<longrightarrow>
      chart_series (mp_view (fst (mp_fetch (Inr r) s))) = [(''Accuracy'', None), (''Loss'', None)])"
  by (simp add: mp_view_def mp_init_def chart_series_data chart_points_data)

lemma metrics_panel_chart_witness:
  "chart_series (mp_view (fst (mp_fetch (Inr \<lparr>status = 200, statusText = ''OK'',
     body = Inr (JArr [metrics_json \<lparr>m_name = ''epoch1'', accuracy = 1/2, loss = 9/10\<rparr>])\<rparr>) mp_init))) =
     [(''Accuracy'', Some [(Some (JStr ''epoch1''), Some (JNum (1/2)))]), (''Loss'', Some [(Some (JStr ''epoch1''), Some (JNum (9/10)))])] \<and>
   chart_series (mp_view (fst (mp_fetch (Inr \<lparr>status = 500, statusText = ''Internal Server Error'',
     body = Inr (JObj [(''error'', JStr ''boom'')])\<rparr>) mp_init))) = [(''Accuracy'', None), (''Loss'', None)]"
proof -
  have ok: "chart_series (mp_view (fst (mp_fetch (Inr \<lparr>status = 200, statusText = ''OK'',
     body = Inr (JArr [metrics_json \<lparr>m_name = ''epoch1'', accuracy = 1/2, loss = 9/10\<rparr>])\<rparr>) mp_init))) =
     chart_series (performance_chart (Some (JArr (map metrics_json [\<lparr>m_name = ''epoch1'', accuracy = 1/2, loss = 9/10\<rparr>]))) None)"
    using metrics_panel_chart [of "\<lparr>status = 200, statusText = ''OK'',
     body = Inr (JArr [metrics_json \<lparr>m_name = ''epoch1'', accuracy = 1/2, loss = 9/10\<rparr>])\<rparr>"
     "[\<lparr>m_name = ''epoch1'', accuracy = 1/2, loss = 9/10\<rparr>]" mp_init] by simp
  have err: "chart_series (mp_view (fst (mp_fetch (Inr \<lparr>status = 500, statusText = ''Internal Server Error'',
     body = Inr (JObj [(''error'', JStr ''boom'')])\<rparr>) mp_init))) = [(''Accuracy'', None), (''Loss'', None)]"
    using metrics_panel_chart [of "\<lparr>status = 500, statusText = ''Internal Server Error'',
     body = Inr (JObj [(''error'', JStr ''boom'')])\<rparr>" _ mp_init "[(''error'', JStr ''boom'')]"] by simp
  from ok err show ?thesis by (simp add: chart_series_data chart_points_data)
qed

end
