(* ===== verification/Build.thy ===== *)
theory Build
  imports ApiClient
begin

text \<open>
  The build and the entry points of the typed front end: the configuration exported
  by \<open>src/frontend/webpack.config.js\<close>, the modules of \<open>src/frontend/src\<close> with the
  relative imports each one declares, and the two entry scripts \<open>index.tsx\<close> and
  \<open>main.tsx\<close>. Paths are lists of segments relative to \<open>src/frontend\<close>. Webpack's
  resolution of a relative request is modelled as its documentation states it: the
  request is joined to the importing module's directory, then the path itself and the
  path with each of \<open>resolve.extensions\<close> appended, in order, are tried against the
  files that exist. Package imports (\<open>react\<close>, \<open>recharts\<close>, ...) leave the source
  tree and are not followed.
\<close>

type_synonym path = "string list"

record webpack_rule =
  rule_test :: "string list" \<comment> \<open>the suffixes the rule's regular expression accepts\<close>
  rule_exclude :: "string list"
  rule_use :: "string list"

record wp_config =
  wp_entry :: path
  out_path :: path
  out_filename :: string
  out_clean :: bool
  out_publicPath :: string
  res_extensions :: "string list"
  res_alias :: "(string \<times> path) list"
  wp_rules :: "webpack_rule list"
  html_template :: path
  dev_historyApiFallback :: bool
  dev_hot :: bool
  dev_port :: nat
  dev_open :: bool
  wp_devtool :: string
  split_chunks :: string

text \<open>The exported function of the configuration, given \<open>argv.mode\<close>.\<close>

definition webpack_config :: "string option \<Rightarrow> wp_config" where
  "webpack_config mode =
     (let isDevelopment = (mode = Some ''development'') in
      \<lparr>wp_entry = [''.'', ''src'', ''index.tsx''],
       out_path = [''dist''], out_filename = ''[name].bundle.js'', out_clean = True, out_publicPath = ''/'',
       res_extensions = [''.ts'', ''.tsx'', ''.js'', ''.jsx''], res_alias = [(''@'', [''src''])],
       wp_rules = [\<lparr>rule_test = [''.ts'', ''.tsx''], rule_exclude = [''node_modules''], rule_use = [''ts-loader'']\<rparr>,
                   \<lparr>rule_test = [''.css''], rule_exclude = [], rule_use = [''style-loader'', ''css-loader'']\<rparr>],
       html_template = [''.'', ''public'', ''index.html''],
       dev_historyApiFallback = True, dev_hot = True, dev_port = 3000, dev_open = True,
       wp_devtool = (if isDevelopment then ''eval-source-map'' else ''source-map''),
       split_chunks = ''all''\<rparr>)"

section \<open>Modules and their relative imports\<close>

definition index_imports :: "path list" where
  "index_imports = []"

definition main_imports :: "path list" where
  "main_imports = [[''.'', ''components'', ''claude_interface'']]"

definition claude_interface_imports :: "path list" where
  "claude_interface_imports =
     [[''..'', ''hooks'', ''useClaudeApi''], [''..'', ''types''], [''.'', ''TabButton''], [''.'', ''ChatPanel''],
      [''.'', ''MLPanel''], [''.'', ''MetricsPanel'']]"

definition chat_panel_imports :: "path list" where
  "chat_panel_imports = [[''..'', ''types''], [''..'', ''hooks'', ''useClaudeApi'']]"

definition ml_panel_imports :: "path list" where
  "ml_panel_imports = [[''..'', ''hooks'', ''useClaudeApi'']]"

definition metrics_panel_imports :: "path list" where
  "metrics_panel_imports = [[''.'', ''PerformanceChart''], [''..'', ''types'']]"

definition tab_button_imports :: "path list" where
  "tab_button_imports = [[''..'', ''types'']]"

definition performance_chart_imports :: "path list" where
  "performance_chart_imports = [[''..'', ''types'']]"

text \<open>The files of the source tree with the relative imports each declares (types and
  hooks import packages only).\<close>

definition frontend_modules :: "(path \<times> path list) list" where
  "frontend_modules =
     [([''src'', ''index.tsx''], index_imports), ([''src'', ''main.tsx''], main_imports),
      ([''src'', ''types.ts''], []),
      ([''src'', ''components'', ''claude_interface.tsx''], claude_interface_imports),
      ([''src'', ''components'', ''ChatPanel.tsx''], chat_panel_imports),
      ([''src'', ''components'', ''MLPanel.tsx''], ml_panel_imports),
      ([''src'', ''components'', ''MetricsPanel.tsx''], metrics_panel_imports),
      ([''src'', ''components'', ''TabButton.tsx''], tab_button_imports),
      ([''src'', ''components'', ''PerformanceChart.tsx''], performance_chart_imports),
      ([''src'', ''hooks'', ''useClaudeApi.ts''], []), ([''src'', ''hooks'', ''useClaudeApi.js''], [])]"

definition imports_of :: "path \<Rightarrow> path list" where
  "imports_of m = (case map_of frontend_modules m of Some is \<Rightarrow> is | None \<Rightarrow> [])"

section \<open>Resolution and the bundle\<close>

text \<open>Normalising a path: \<open>.\<close> is dropped, \<open>..\<close> removes the last segment.\<close>

fun norm_path :: "path \<Rightarrow> path \<Rightarrow> path" where
  "norm_path acc [] = rev acc"
| "norm_path acc (s # ss) =
     (if s = ''.'' then norm_path acc ss else if s = ''..'' then norm_path (tl acc) ss else norm_path (s # acc) ss)"

definition add_ext :: "path \<Rightarrow> string \<Rightarrow> path" where
  "add_ext p e = butlast p @ [last p @ e]"

definition resolve_request :: "wp_config \<Rightarrow> path list \<Rightarrow> path \<Rightarrow> path \<Rightarrow> path option" where
  "resolve_request cfg files dir req =
     (let p = norm_path [] (dir @ req) in find (\<lambda>f. f \<in> set files) (p # map (add_ext p) (res_extensions cfg)))"

definition frontend_files :: "path list" where
  "frontend_files = map fst frontend_modules"

text \<open>The modules webpack puts in the bundle: the entry and, transitively, what the
  relative imports of a bundled module resolve to.\<close>

inductive in_bundle :: "wp_config \<Rightarrow> path \<Rightarrow> bool" for cfg where
  entry: "in_bundle cfg (norm_path [] (wp_entry cfg))"
| import: "in_bundle cfg m \<Longrightarrow> req \<in> set (imports_of m) \<Longrightarrow>
    resolve_request cfg frontend_files (butlast m) req = Some f \<Longrightarrow> in_bundle cfg f"

section \<open>What the entry scripts render\<close>

datatype react_el = RText string | RElem string "react_el list"

datatype mount_target = RootElement | DetachedDiv

text \<open>\<open>index.tsx\<close>, lines 22-23: the placeholder \<open>App\<close>, rendered into the element
  \<open>root\<close> or, when the page has none, into a new \<open>div\<close> that is not in the page.\<close>

definition index_App :: react_el where
  "index_App = RElem ''div'' [RText ''FreqAI Assistant'']"

definition index_render :: "bool \<Rightarrow> mount_target \<times> react_el" where
  "index_render has_root = ((if has_root then RootElement else DetachedDiv), RElem ''App'' [])"

text \<open>\<open>main.tsx\<close>: the dashboard in strict mode; \<open>as HTMLElement\<close> does not check, so
  without a \<open>root\<close> element \<open>createRoot(null)\<close> throws.\<close>

definition main_render :: "bool \<Rightarrow> exn + mount_target \<times> react_el" where
  "main_render has_root =
     (if has_root then Inr (RootElement, RElem ''React.StrictMode'' [RElem ''ClaudeInterface'' []])
      else Inl (js_error ''Target container is not a DOM element.''))"

lemma norm_entry [simp]: "norm_path [] [''.'', ''src'', ''index.tsx''] = [''src'', ''index.tsx'']"
  by simp

lemma webpack_config_entry [simp]: "wp_entry (webpack_config mode) = [''.'', ''src'', ''index.tsx'']"
  by (simp add: webpack_config_def Let_def)

lemma webpack_config_extensions [simp]: "res_extensions (webpack_config mode) = [''.ts'', ''.tsx'', ''.js'', ''.jsx'']"
  by (simp add: webpack_config_def Let_def)

lemma imports_of_index [simp]: "imports_of [''src'', ''index.tsx''] = []"
  by (simp add: imports_of_def frontend_modules_def index_imports_def)

text \<open>An invariant of the bundle: a set of modules that holds the entry and is closed
  under resolving the imports of its members contains the whole bundle.\<close>

lemma in_bundle_closed:
  assumes "in_bundle cfg f"
    and "norm_path [] (wp_entry cfg) \<in> S"
    and "\<And>m req f. m \<in> S \<Longrightarrow> req \<in> set (imports_of m) \<Longrightarrow>
           resolve_request cfg frontend_files (butlast m) req = Some f \<Longrightarrow> f \<in> S"
  shows "f \<in> S"
  using assms by (induction rule: in_bundle.induct) blast+

section \<open>Properties of the build\<close>

text \<open>C26: the production bundle does not contain the dashboard: its entry
  \<open>src/index.tsx\<close> imports no module of the source tree, so in either mode the
  bundle is that one module, which renders the placeholder \<open>App\<close> (the text
  "FreqAI Assistant"); \<open>main.tsx\<close>, which mounts the dashboard, and every component
  are left out.\<close>

theorem bundle_is_placeholder:
  "(in_bundle (webpack_config mode) f \<longleftrightarrow> f = [''src'', ''index.tsx'']) \<and>
   snd (index_render has_root) = RElem ''App'' [] \<and> index_App = RElem ''div'' [RText ''FreqAI Assistant'']"
proof -
  have "in_bundle (webpack_config mode) f \<Longrightarrow> f \<in> {[''src'', ''index.tsx'']}"
    by (erule in_bundle_closed) simp_all
  moreover have "in_bundle (webpack_config mode) [''src'', ''index.tsx'']"
    using in_bundle.entry [of "webpack_config mode"] by simp
  ultimately show ?thesis by (auto simp: index_render_def index_App_def)
qed

lemma bundle_is_placeholder_witness:
  "\<not> in_bundle (webpack_config (Some ''production'')) [''src'', ''main.tsx''] \<and>
   \<not> in_bundle (webpack_config (Some ''development'')) [''src'', ''components'', ''claude_interface.tsx''] \<and>
   snd (index_render True) = RElem ''App'' []"
  using bundle_is_placeholder [of "Some ''production''" "[''src'', ''main.tsx'']" True]
    bundle_is_placeholder [of "Some ''development''" "[''src'', ''components'', ''claude_interface.tsx'']" True]
  by simp

text \<open>C27: the typed hook shadows the untyped one: because \<open>.ts\<close> comes before
  \<open>.js\<close> in \<open>resolve.extensions\<close>, the request \<open>../hooks/useClaudeApi\<close> of the
  components resolves to \<open>useClaudeApi.ts\<close>. Even with \<open>main.tsx\<close> as the entry,
  the bundle holds the typed hook and never \<open>useClaudeApi.js\<close>.\<close>

theorem hook_resolves_to_ts:
  "resolve_request (webpack_config mode) frontend_files [''src'', ''components''] [''..'', ''hooks'', ''useClaudeApi''] =
     Some [''src'', ''hooks'', ''useClaudeApi.ts''] \<and>
   in_bundle ((webpack_config mode)\<lparr>wp_entry := [''.'', ''src'', ''main.tsx'']\<rparr>) [''src'', ''hooks'', ''useClaudeApi.ts''] \<and>
   \<not> in_bundle ((webpack_config mode)\<lparr>wp_entry := [''.'', ''src'', ''main.tsx'']\<rparr>) [''src'', ''hooks'', ''useClaudeApi.js'']"
proof -
  let ?cfg = "(webpack_config mode)\<lparr>wp_entry := [''.'', ''src'', ''main.tsx'']\<rparr>"
  have res: "resolve_request cfg frontend_files [''src'', ''components''] [''..'', ''hooks'', ''useClaudeApi''] =
     Some [''src'', ''hooks'', ''useClaudeApi.ts'']"
    if "res_extensions cfg = [''.ts'', ''.tsx'', ''.js'', ''.jsx'']" for cfg :: wp_config
    using that by (simp add: resolve_request_def frontend_files_def frontend_modules_def add_ext_def)
  have m: "in_bundle ?cfg [''src'', ''main.tsx'']"
    using in_bundle.entry [of ?cfg] by simp
  have ci: "in_bundle ?cfg [''src'', ''components'', ''claude_interface.tsx'']"
    by (rule in_bundle.import [OF m, of "[''.'', ''components'', ''claude_interface'']"])
      (simp_all add: imports_of_def frontend_modules_def main_imports_def resolve_request_def
         frontend_files_def add_ext_def)
  have ts: "in_bundle ?cfg [''src'', ''hooks'', ''useClaudeApi.ts'']"
    by (rule in_bundle.import [OF ci, of "[''..'', ''hooks'', ''useClaudeApi'']"])
      (simp_all add: imports_of_def frontend_modules_def claude_interface_imports_def res)
  let ?S = "set (remove1 [''src'', ''hooks'', ''useClaudeApi.js''] (remove1 [''src'', ''index.tsx''] frontend_files))"
  have "in_bundle ?cfg [''src'', ''hooks'', ''useClaudeApi.js''] \<Longrightarrow> [''src'', ''hooks'', ''useClaudeApi.js''] \<in> ?S"
  proof (erule in_bundle_closed)
    show "norm_path [] (wp_entry ?cfg) \<in> ?S" by (simp add: frontend_files_def frontend_modules_def)
  next
    fix m req f
    assume "m \<in> ?S" "req \<in> set (imports_of m)" "resolve_request ?cfg frontend_files (butlast m) req = Some f"
    then show "f \<in> ?S"
      by (auto simp: frontend_files_def frontend_modules_def imports_of_def resolve_request_def add_ext_def
        main_imports_def claude_interface_imports_def chat_panel_imports_def ml_panel_imports_def
        metrics_panel_imports_def tab_button_imports_def performance_chart_imports_def)
  qed
  then have "\<not> in_bundle ?cfg [''src'', ''hooks'', ''useClaudeApi.js'']"
    by (auto simp: frontend_files_def frontend_modules_def)
  with res [of "webpack_config mode"] ts show ?thesis by simp
qed

end
