(* ===== verification/Spec2Isabelle.thy ===== *)
theory Spec2Isabelle
  imports DashboardRuns Shell Chart Build
begin

text \<open>
  \<^bold>\<open>A verification model of the FREQassistant dashboard front end.\<close>

  \<^bold>\<open>The program.\<close> A browser dashboard (React, TypeScript and JavaScript) that sends
  chat messages, starts training runs and shows metrics through a remote HTTP API.
  Its parts, leaves first: the API client hook \<open>useClaudeApi\<close>
  (\<open>src/frontend/src/hooks/useClaudeApi.ts\<close> and the untyped variant
  \<open>useClaudeApi.js\<close>), which wraps \<open>fetch\<close> and keeps an \<open>isLoading\<close> flag and an
  \<open>error\<close> string; three typed panels that each own an instance of the hook
  (\<open>components/ChatPanel.tsx\<close>, \<open>MLPanel.tsx\<close>, \<open>MetricsPanel.tsx\<close>, the last one
  calling \<open>fetch\<close> directly); the typed shell \<open>components/claude_interface.tsx\<close>
  with \<open>TabButton.tsx\<close>, which mounts the panel of the active tab; and the legacy
  combined dashboard \<open>src/claude_interface.js\<close>, one component with its own
  messages, a training flag and a single-entry metrics cache, whose calls all share
  one hook instance. The components interact by calls (a panel calls its hook), by
  shared state (the hook's two fields, written by every call of the component that
  owns it) and by callbacks (\<open>onError\<close>). The metrics panel draws its data with
  \<open>PerformanceChart.tsx\<close>; \<open>main.tsx\<close> mounts the typed shell, while the build of
  \<open>webpack.config.js\<close> starts from \<open>index.tsx\<close>.

  \<^bold>\<open>How the model corresponds to the code.\<close>
  \<^item> \<open>Prelude\<close>: the clock (\<open>time\<close>, milliseconds as \<^typ>\<open>nat\<close>), the tab type,
    JavaScript's \<open>trim\<close> (\<open>js_trim\<close>, \<open>blank\<close>) and the decimal rendering of
    numbers (\<open>show_nat\<close>) with its inverse \<open>parse_nat\<close>.
  \<^item> \<open>ApiClient\<close>: parsed JSON (\<open>json\<close>, \<open>jsval\<close> with \<open>None\<close> for
    \<open>undefined\<close>), error objects (\<open>exn\<close>), responses, requests, the property read
    \<open>js_prop\<close>; the hook's state \<open>api_state\<close> and \<open>callApi\<close> split at its
    \<open>await\<close> into \<open>call_start\<close> (lines 12-13) and \<open>call_settle\<close> of the result
    \<open>call_result\<close> (the \<open>try\<close>, \<open>catch\<close> and \<open>finally\<close> blocks), one
    definition for both files with a \<open>hook_variant\<close> where they differ
    (\<open>fetch_request\<close>, \<open>call_result\<close>, \<open>error_text\<close>). \<open>hook_reach\<close> is any
    interleaving of calls on one instance, \<open>hook_serial\<close> a caller that never overlaps
    them, and \<open>abs_api\<close>/\<open>abs_step\<close> the spec's idle/in-flight/error contract.
  \<^item> \<open>ChatPanel\<close>: \<open>message\<close> (\<open>types.ts\<close>), the panel state, \<open>handleSubmit\<close> as
    \<open>chat_submit\<close> (before the \<open>await\<close>) and \<open>chat_resume\<close> (after it), their
    sequential composition \<open>chat_exchange\<close> and \<open>chat_session\<close>, and the step
    relation \<open>chat_step\<close>, gated by the form's \<open>disabled\<close> conditions, with its
    reachable states \<open>chat_reach\<close>; \<open>msg_wf\<close> is the \<open>Message\<close> type of the
    messages it adds.
  \<^item> \<open>TrainingPanel\<close> (\<open>MLPanel.tsx\<close>): \<open>ml_submit\<close>, \<open>ml_resume\<close>, \<open>ml_step\<close>.
  \<^item> \<open>MetricsPanel\<close>: the mount-time fetch \<open>mp_fetch\<close>.
  \<^item> \<open>Shell\<close>: \<open>handleTabClick\<close>, \<open>mount\<close>, \<open>tab_selected\<close> and the composed
    step relation \<open>shell_step\<close> in which only the mounted panel moves.
  \<^item> \<open>Dashboard\<close> (\<open>src/claude_interface.js\<close>): the state record, each handler
    (\<open>fetchMetrics\<close>, \<open>sendMessage\<close>, \<open>clearHistory\<close>, \<open>startTraining\<close>,
    \<open>handleKeyPress\<close>) up to its \<open>await\<close>, returning the calls it leaves in
    flight (\<open>pending\<close>), their continuations \<open>dash_resolve\<close>, the effect
    \<open>run_effect\<close> that React runs after a commit when its dependencies (the tab and
    the cache entry, on which \<open>fetchMetrics\<close> depends) changed, and the rendered
    controls (\<open>enabled\<close>). \<open>dash_step\<close> is one event or one settling call followed by
    the commit; any call in flight may settle next.
  \<^item> \<open>DashboardRuns\<close>: runs of the dashboard: \<open>fx_synced\<close> (the effect has seen the
    last commit) and \<open>settle_all\<close>, a scheduler that settles the oldest call in flight
    with each outcome of a list.
  \<^item> \<open>Chart\<close>: \<open>Metrics\<close> of \<open>types.ts\<close> (\<open>metrics\<close>) and its JSON encoding,
    \<open>PerformanceChart.tsx\<close> as the chart description \<open>performance_chart\<close> it builds
    from \<open>data\<close> and \<open>darkMode\<close>, the metrics panel's rendering \<open>mp_view\<close>, and what
    \<open>recharts\<close> plots (\<open>chart_points\<close>, \<open>chart_series\<close>: each row read at the x key
    and at each line's data key).
  \<^item> \<open>Build\<close>: \<open>webpack.config.js\<close> (\<open>webpack_config\<close> of the mode), the relative
    imports of each module of \<open>src/frontend/src\<close>, webpack's resolution of a request
    (\<open>resolve_request\<close>: the path, then the path with each of
    \<open>resolve.extensions\<close> in order) and the bundle (\<open>in_bundle\<close>: the entry and
    what the imports of bundled modules resolve to), and what \<open>index.tsx\<close> and
    \<open>main.tsx\<close> render.
  The network is an input of the model: a settling call is given the outcome of
  \<open>fetch\<close> (a rejection or a response whose body parses or not); the clock is an input
  of every handler that reads \<open>Date.now()\<close>.

  \<^bold>\<open>What the lemmas show.\<close> Claims are numbered by importance. The core
  contract of the client and the chat panel: a call's effect on success and on HTTP
  failure (C1-C2), one chat exchange on success and failure (C3-C4), the five-minute
  metrics cache and its failure path (C5-C6), the loading flag implying a call in
  flight (C7), the blank-input early return (C8) and the alternation of a session
  (C9). Reachable states: the chat panel serializes its requests and keeps replies
  after their questions (C10-C11), the dashboard keeps (user, assistant) pairs and
  its flag implies a call in flight under any interleaving (C12-C13), and a
  non-overlapping caller sees, and refines, the spec's idle/in-flight contract
  (C14-C15). Runs and types: once the calls in flight settle the dashboard is idle
  (liveness, C16), each settlement removes its call for good (termination, C17), the
  chat panel's user messages hold the typed string and every id is a numeral
  (C18), and the chart plots the samples the server sent, alone and inside the
  metrics panel (roundtrip and composition, C19-C20). Where the code departs from the
  spec or leaves it open: overlapping calls clear the flag early, on one hook (C21)
  and in the real dashboard (C22); replies in arrival order (C23); no bound on calls
  in flight (C24); a fetch settled at clock 0 fetches again (C25); the build ships a
  placeholder instead of the dashboard and resolves the hook to its typed file
  (C26-C27); error texts of both hooks (C28-C30); a \<open>null\<close> reply body (C31);
  non-unique message ids (C32); the metrics panel ignoring the status (C33). The
  remaining panels and the composition: training start (C34-C35), the training flag
  never reset (C36), the shell's dead banner and the chat lost on a tab change
  (C37-C39), and the agreement of the two hooks on successful calls (C40).

  \<^bold>\<open>Bounds and fuel.\<close> The program has no loop: every handler is straight-line code.
  What could run without end is the interplay of the dashboard's effect and its
  cache: a settling metrics fetch writes the cache, the effect depends on the cache
  and may fetch again. The termination lemma (C17) shows that at a positive clock
  no settlement starts a call, so the number of calls in flight is a measure that
  every settlement decreases; \<open>settle_all\<close> therefore needs as many outcomes as there
  are calls in flight, no more (C16), and C25 shows that the positive clock is needed.
  No bound holds on the calls in flight themselves (C24). The recursions of the model,
  \<open>show_nat\<close> (on \<open>n div 10\<close>), \<open>norm_path\<close> and \<open>settle_all\<close> (on their list)
  terminate. The cache window compares \<open>Date.now() - timestamp\<close> against 300000 on
  JavaScript numbers, modelled on \<^typ>\<open>int\<close> so that a clock set back behaves as in
  the code. Millisecond timestamps stay far below \<open>2^53\<close>, so JavaScript's doubles
  are exact on them and \<^typ>\<open>nat\<close> is faithful.

  \<^bold>\<open>Not modelled.\<close> The markup and styling, the drawing of the chart by
  \<open>recharts\<close> beyond the values it reads, the dev server and the loaders' output of
  webpack, the remote server, and the module \<open>../constants/api\<close> that the legacy
  dashboard imports but the repository does not contain (its endpoints are therefore
  not part of the model). The interfaces duplicated at the top of \<open>index.tsx\<close> are
  imported by no module. Strings are Isabelle's 8-bit characters: \<open>trim\<close> is
  modelled on the Latin-1 range. Both \<open>Date.now()\<close> reads of one message literal,
  and those of a settling call and the effect run after it, are taken to fall in the
  same millisecond. The legacy dashboard imports \<open>../hooks/useClaudeApi\<close> relative
  to \<open>src/\<close>, a path the repository does not have; it is modelled with the untyped
  hook \<open>useClaudeApi.js\<close>, the variant written for it. React's batching is modelled
  by applying each handler's state updates in order before the next event.
\<close>

section \<open>Properties spanning components\<close>

text \<open>C40: the two hook variants behave the same on every call that succeeds: both
  resolve exactly when the other does, to the same value, and leave the same loading
  flag; they differ only in the error text of a failed call.\<close>

theorem hook_variants_agree:
  "(call_result HookTS out = Inr j \<longleftrightarrow> call_result HookJS out = Inr j) \<and>
   isLoading (snd (callApi HookTS out s)) = isLoading (snd (callApi HookJS out s)) \<and>
   (fst (callApi HookTS out s) = Inr j \<longrightarrow> snd (callApi HookTS out s) = snd (callApi HookJS out s))"
proof -
  have "call_result HookTS out = Inr j \<longleftrightarrow> call_result HookJS out = Inr j"
    by (cases out) (simp_all split: sum.split)
  then show ?thesis by (auto simp: callApi_def Let_def)
qed

lemma hook_variants_agree_witness:
  "fst (callApi HookTS (Inr \<lparr>status = 200, statusText = ''OK'', body = Inr JNull\<rparr>) api_init) = Inr JNull \<and>
   snd (callApi HookTS (Inr \<lparr>status = 200, statusText = ''OK'', body = Inr JNull\<rparr>) api_init) =
   snd (callApi HookJS (Inr \<lparr>status = 200, statusText = ''OK'', body = Inr JNull\<rparr>) api_init)"
proof -
  have ok: "fst (callApi HookTS (Inr \<lparr>status = 200, statusText = ''OK'', body = Inr JNull\<rparr>) api_init) = Inr JNull"
    by (simp add: callApi_def resp_ok_def)
  with hook_variants_agree [of "Inr \<lparr>status = 200, statusText = ''OK'', body = Inr JNull\<rparr>" JNull api_init]
  show ?thesis by blast
qed

text \<open>C38: panel errors do not reach the shell. In the typed dashboard started
  without props (as \<open>main.tsx\<close> renders it), a chat request that fails leaves its
  error rendered inside the chat panel while the shell's error banner stays hidden:
  the banner reads the shell's own hook instance, which no call uses.\<close>

theorem panel_error_not_in_banner:
  "\<exists>s. shell_reach [] s \<and> shown (error (chat_api (fst (sh_chat s)))) \<and> \<not> shown (error (sh_api s))"
proof -
  let ?s0 = "shell_init []"
  let ?c1 = "((chat_init [])\<lparr>input := ''a''\<rparr>, 0::nat)"
  let ?c2 = "(\<lparr>messages = [user_msg 5 ''a''], input = [], chat_api = call_start api_init\<rparr>, Suc 0)"
  let ?c3 = "(fst (chat_resume 6 (Inl (js_error ''Failed to fetch'')) (fst ?c2)), 0::nat)"
  have st1: "chat_step (chat_init [], 0) ?c1"
    by (rule chat_step.edit) (simp add: chat_init_def api_init_def)
  have st2: "chat_step ?c1 ?c2"
    by (rule chat_step.submit [where now = 5 and rq = "chat_request ''a''"])
      (simp_all add: chat_init_def api_init_def chat_submit_Some)
  have st3: "chat_step ?c2 ?c3"
    using chat_step.resume [of "fst ?c2" 0 6 "Inl (js_error ''Failed to fetch'')"] by simp
  have r1: "shell_reach [] (?s0\<lparr>sh_chat := ?c1\<rparr>)"
    by (rule shell_reach.step [OF shell_reach.init shell_step.chat]) (simp_all add: shell_init_def st1)
  have r2: "shell_reach [] (?s0\<lparr>sh_chat := ?c2\<rparr>)"
    using shell_reach.step [OF r1 shell_step.chat [of "?s0\<lparr>sh_chat := ?c1\<rparr>" ?c2]] st2
    by (simp add: shell_init_def)
  have r3: "shell_reach [] (?s0\<lparr>sh_chat := ?c3\<rparr>)"
    using shell_reach.step [OF r2 shell_step.chat [of "?s0\<lparr>sh_chat := ?c2\<rparr>" ?c3]] st3
    by (simp add: shell_init_def)
  moreover have "shown (error (chat_api (fst ?c3)))"
    by (simp add: chat_resume_def shown_def)
  moreover have "\<not> shown (error (sh_api (?s0\<lparr>sh_chat := ?c3\<rparr>)))"
    by (simp add: shell_init_def api_init_def shown_def)
  ultimately show ?thesis by auto
qed

end
